theory Spec2Isabelle
  imports Complex_Main "HOL-Library.Word" "HOL-Library.Signed_Division"
begin

unbundle bit_operations_syntax

section \<open>Go values\<close>

text \<open>
  Go's fixed-width integers are words. \<open>int\<close> is the 64-bit \<open>int\<close> of the platforms the
  uplink is built for; \<open>memory.Size\<close> (package \<open>internal/memory\<close>, used by the
  configuration structs) is an \<open>int64\<close>, and its \<open>Int\<close>, \<open>Int32\<close> and \<open>Int64\<close>
  methods are the conversions \<open>int(s)\<close>, \<open>int32(s)\<close> and \<open>int64(s)\<close>. A conversion
  between integer types keeps the low bits of the two's complement representation.
\<close>

type_synonym go_int = "64 word"
type_synonym int16 = "16 word"
type_synonym int32 = "32 word"
type_synonym int64 = "64 word"
type_synonym byte = "8 word"
type_synonym memory_Size = "64 word"

definition to_int16 :: "go_int \<Rightarrow> int16" where
  "to_int16 x = word_of_int (sint x)"

definition to_int32 :: "64 word \<Rightarrow> int32" where
  "to_int32 x = word_of_int (sint x)"

definition Size_Int :: "memory_Size \<Rightarrow> go_int" where
  "Size_Int s = s"

definition Size_Int64 :: "memory_Size \<Rightarrow> int64" where
  "Size_Int64 s = s"

definition Size_Int32 :: "memory_Size \<Rightarrow> int32" where
  "Size_Int32 s = to_int32 s"

section \<open>Uplink configuration (package uplink)\<close>

record RSConfig =
  MaxBufferMem :: memory_Size
  ErasureShareSize :: memory_Size
  MinThreshold :: go_int
  RepairThreshold :: go_int
  SuccessThreshold :: go_int
  MaxThreshold :: go_int

record EncryptionConfig =
  Key :: string
  KeyFilepath :: string
  BlockSize :: memory_Size
  DataType :: go_int
  PathType :: go_int

record ClientConfig =
  APIKey :: string
  SatelliteAddr :: string
  MaxInlineSize :: memory_Size
  SegmentSize :: memory_Size

text \<open>
  The TLS options (\<open>tlsopts.Config\<close>) are declared in a package outside this
  development; the configuration carries them as a value of a type parameter. The key
  and the paths are Go strings.
\<close>

record 'tls Config =
  Client :: ClientConfig
  RS :: RSConfig
  Enc :: EncryptionConfig
  TLS :: 'tls

subsection \<open>The schemes handed to new uploads\<close>

datatype RedundancyAlgorithm = ReedSolomon

record RedundancyScheme =
  Algorithm :: RedundancyAlgorithm
  RequiredShares :: int16
  RepairShares :: int16
  OptimalShares :: int16
  TotalShares :: int16

text \<open>
  \<open>storj.Cipher\<close> is declared in package \<open>storj\<close>, outside this development: the
  conversion \<open>storj.Cipher(c.Enc.DataType)\<close> is a parameter \<open>cipher_of\<close> of every
  function that performs it.
\<close>

record 'c EncryptionScheme =
  Cipher :: 'c
  BlockSize :: int32

definition GetRedundancyScheme :: "'tls Config \<Rightarrow> RedundancyScheme" where
  "GetRedundancyScheme c =
     \<lparr>Algorithm = ReedSolomon,
      RequiredShares = to_int16 (MinThreshold (RS c)),
      RepairShares = to_int16 (RepairThreshold (RS c)),
      OptimalShares = to_int16 (SuccessThreshold (RS c)),
      TotalShares = to_int16 (MaxThreshold (RS c))\<rparr>"

definition GetEncryptionScheme :: "(go_int \<Rightarrow> 'c) \<Rightarrow> 'tls Config \<Rightarrow> 'c EncryptionScheme" where
  "GetEncryptionScheme cipher_of c =
     \<lparr>Cipher = cipher_of (DataType (Enc c)),
      BlockSize = to_int32 (EncryptionConfig.BlockSize (Enc c))\<rparr>"

text \<open>A configuration used in examples: the development defaults of the struct tags.\<close>

definition dev_RS :: RSConfig where
  "dev_RS = \<lparr>MaxBufferMem = 4194304, ErasureShareSize = 1024, MinThreshold = 4,
     RepairThreshold = 6, SuccessThreshold = 8, MaxThreshold = 10\<rparr>"

definition dev_Enc :: EncryptionConfig where
  "dev_Enc = \<lparr>Key = [], KeyFilepath = ''/home/u/.enc.key'', BlockSize = 1024,
     DataType = 1, PathType = 1\<rparr>"

definition dev_Client :: ClientConfig where
  "dev_Client = \<lparr>APIKey = ''apikey'', SatelliteAddr = ''127.0.0.1:10000'',
     MaxInlineSize = 4096, SegmentSize = 67108864\<rparr>"

definition dev_Config :: "unit Config" where
  "dev_Config = \<lparr>Client = dev_Client, RS = dev_RS, Enc = dev_Enc, TLS = ()\<rparr>"

section \<open>Sessions of the library entry point (lib/uplink)\<close>

text \<open>
  A session holds a transport client and a gateway; both are opaque here. Every method
  below has the body \<open>panic("TODO")\<close>: the model returns the panic as the outcome and
  the session it was called on, untouched.
\<close>

record ('t, 'g) Session =
  TransportClient :: 't
  Gateway :: "'g option"

datatype 'a outcome = Returns 'a | Panics string

definition NewPartialUpload ::
  "('t, 'g) Session \<Rightarrow> string \<Rightarrow> (string \<times> string option) outcome \<times> ('t, 'g) Session" where
  "NewPartialUpload s bucket = (Panics ''TODO'', s)"

definition ListPartialUploads :: "('t, 'g) Session \<Rightarrow> unit outcome \<times> ('t, 'g) Session" where
  "ListPartialUploads s = (Panics ''TODO'', s)"

definition PutPartialUpload :: "('t, 'g) Session \<Rightarrow> unit outcome \<times> ('t, 'g) Session" where
  "PutPartialUpload s = (Panics ''TODO'', s)"

definition FinishPartialUpload :: "('t, 'g) Session \<Rightarrow> unit outcome \<times> ('t, 'g) Session" where
  "FinishPartialUpload s = (Panics ''TODO'', s)"

definition AbortPartialUpload ::
  "('t, 'g) Session \<Rightarrow> string \<Rightarrow> string \<Rightarrow> string option outcome \<times> ('t, 'g) Session" where
  "AbortPartialUpload s bucket uploadID = (Panics ''TODO'', s)"

section \<open>Errors and the operating system\<close>

text \<open>
  Error values keep the shape the code gives them: an error of package \<open>os\<close> carries
  its errno, \<open>errors.New\<close> and \<open>fmt.Errorf\<close> carry their text and arguments, and the
  \<open>errs\<close> classes wrap an error or format a new one. \<open>External\<close> is an error returned
  by a collaborator whose code lies outside this development.
\<close>

datatype errno = ENOENT | EEXIST | ENOTDIR | EACCES | EIO | ENOSPC

datatype errs_class = uplink_Error | storj_ErrNoBucket

type_synonym FileMode = "32 word"

datatype fmt_arg = ArgString string | ArgMode FileMode

datatype error =
    PathError errno
  | io_EOF
  | External string
  | errors_New string
  | fmt_Errorf string "fmt_arg list"
  | errs_Wrap error
  | Class_Wrap errs_class error
  | Class_New errs_class string "error list"

fun IsNotExist :: "error \<Rightarrow> bool" where
  "IsNotExist (PathError e) = (e = ENOENT)"
| "IsNotExist _ = False"

fun IsExist :: "error \<Rightarrow> bool" where
  "IsExist (PathError e) = (e = EEXIST)"
| "IsExist _ = False"

text \<open>
  The file system is a map from paths to regular files; the trace lists, in order, the
  system calls and the network connection attempts; the umask is the
  file mode creation mask of the process. Octal 0400, 0600 and 0777 are 256, 384 and 511.
\<close>

abbreviation mode_0400 :: FileMode where "mode_0400 \<equiv> 256"
abbreviation mode_0600 :: FileMode where "mode_0600 \<equiv> 384"
abbreviation mode_0777 :: FileMode where "mode_0777 \<equiv> 511"

definition Perm :: "FileMode \<Rightarrow> FileMode" where
  "Perm m = m AND mode_0777"

record os_file =
  contents :: "byte list"
  mode :: FileMode

datatype event =
    SysOpenFile string FileMode
  | SysOpen string
  | SysStat string
  | SysRead string
  | SysWrite string "byte list"
  | SysChmod string FileMode
  | SysClose string
  | NetDial string

record world =
  files :: "string \<rightharpoonup> os_file"
  trace :: "event list"
  umask :: FileMode

text \<open>
  What the operating system may refuse beyond what the file map decides is an input of
  the model. Opening a path first resolves its directories: \<open>lookup_fault\<close> is the
  failure of that step, if any (ENOENT for a missing directory, ENOTDIR for a path below
  a regular file, EACCES for a directory that may not be searched), and it is reported
  whether or not the file exists. Once the directories are resolved the file map decides
  whether the file exists, and \<open>open_fault\<close> is what may still be refused after that
  (EACCES for a file that may not be read or a directory that may not be written, ENOSPC).
  The other fields are the failures of stat, read, write (after a number of bytes), chmod
  and close.
\<close>

record os_faults =
  lookup_fault :: "errno option"
  open_fault :: "errno option"
  stat_fault :: "errno option"
  read_fault :: "errno option"
  write_fault :: "(errno \<times> nat) option"
  chmod_fault :: "errno option"
  close_fault :: "errno option"

definition no_faults :: os_faults where
  "no_faults = \<lparr>lookup_fault = None, open_fault = None, stat_fault = None,
     read_fault = None, write_fault = None, chmod_fault = None, close_fault = None\<rparr>"

definition log_event :: "event \<Rightarrow> world \<Rightarrow> world" where
  "log_event e w = w\<lparr>trace := trace w @ [e]\<rparr>"

definition update_file :: "string \<Rightarrow> (os_file \<Rightarrow> os_file) \<Rightarrow> world \<Rightarrow> world" where
  "update_file name g w =
     (case files w name of
        None \<Rightarrow> w
      | Some f \<Rightarrow> w\<lparr>files := (files w)(name \<mapsto> g f)\<rparr>)"

text \<open>
  \<open>os.OpenFile(name, O_CREATE|O_EXCL|O_WRONLY, perm)\<close>: once the directories are
  resolved an existing file is EEXIST; a new file is empty and its mode is \<open>perm\<close>
  without the bits of the umask.
\<close>

definition os_OpenFile_excl ::
  "os_faults \<Rightarrow> string \<Rightarrow> FileMode \<Rightarrow> world \<Rightarrow> (error + string) \<times> world" where
  "os_OpenFile_excl flt name perm w =
     (let w' = log_event (SysOpenFile name perm) w in
      case lookup_fault flt of
        Some e \<Rightarrow> (Inl (PathError e), w')
      | None \<Rightarrow>
          (case files w name of
             Some f \<Rightarrow> (Inl (PathError EEXIST), w')
           | None \<Rightarrow>
               (case open_fault flt of
                  Some e \<Rightarrow> (Inl (PathError e), w')
                | None \<Rightarrow>
                    (Inr name,
                     w'\<lparr>files := (files w')(name \<mapsto>
                          \<lparr>contents = [], mode = perm AND NOT (umask w)\<rparr>)\<rparr>))))"

text \<open>
  \<open>os.Open(name)\<close>: opening for reading; once the directories are resolved a missing
  file is ENOENT.
\<close>

definition os_Open :: "os_faults \<Rightarrow> string \<Rightarrow> world \<Rightarrow> (error + string) \<times> world" where
  "os_Open flt name w =
     (let w' = log_event (SysOpen name) w in
      case lookup_fault flt of
        Some e \<Rightarrow> (Inl (PathError e), w')
      | None \<Rightarrow>
          (case files w name of
             None \<Rightarrow> (Inl (PathError ENOENT), w')
           | Some f \<Rightarrow>
               (case open_fault flt of
                  Some e \<Rightarrow> (Inl (PathError e), w')
                | None \<Rightarrow> (Inr name, w'))))"

definition file_Stat :: "os_faults \<Rightarrow> string \<Rightarrow> world \<Rightarrow> (error + FileMode) \<times> world" where
  "file_Stat flt h w =
     (let w' = log_event (SysStat h) w in
      case stat_fault flt of
        Some e \<Rightarrow> (Inl (PathError e), w')
      | None \<Rightarrow>
          (case files w h of
             None \<Rightarrow> (Inl (PathError ENOENT), w')
           | Some f \<Rightarrow> (Inr (mode f), w')))"

text \<open>
  \<open>f.Read(b)\<close> on a file just opened, with \<open>n = len(b)\<close>: up to \<open>n\<close> bytes from the
  start of the file; at end of file, no byte and \<open>io.EOF\<close>.
\<close>

definition file_Read ::
  "os_faults \<Rightarrow> string \<Rightarrow> nat \<Rightarrow> world \<Rightarrow> (byte list \<times> error option) \<times> world" where
  "file_Read flt h n w =
     (let w' = log_event (SysRead h) w in
      case read_fault flt of
        Some e \<Rightarrow> (([], Some (PathError e)), w')
      | None \<Rightarrow>
          (case files w h of
             None \<Rightarrow> (([], Some (PathError ENOENT)), w')
           | Some f \<Rightarrow>
               if n = 0 then (([], None), w')
               else if contents f = [] then (([], Some io_EOF), w')
               else ((take n (contents f), None), w')))"

text \<open>\<open>f.Write(b)\<close>: the bytes are appended; a failing write leaves a prefix behind.\<close>

definition file_Write ::
  "os_faults \<Rightarrow> string \<Rightarrow> byte list \<Rightarrow> world \<Rightarrow> error option \<times> world" where
  "file_Write flt h b w =
     (let w' = log_event (SysWrite h b) w in
      case write_fault flt of
        Some (e, n) \<Rightarrow>
          (Some (PathError e), update_file h (\<lambda>f. f\<lparr>contents := contents f @ take n b\<rparr>) w')
      | None \<Rightarrow> (None, update_file h (\<lambda>f. f\<lparr>contents := contents f @ b\<rparr>) w'))"

definition file_Chmod ::
  "os_faults \<Rightarrow> string \<Rightarrow> FileMode \<Rightarrow> world \<Rightarrow> error option \<times> world" where
  "file_Chmod flt h m w =
     (let w' = log_event (SysChmod h m) w in
      case chmod_fault flt of
        Some e \<Rightarrow> (Some (PathError e), w')
      | None \<Rightarrow> (None, update_file h (\<lambda>f. f\<lparr>mode := m\<rparr>) w'))"

definition file_Close :: "os_faults \<Rightarrow> string \<Rightarrow> world \<Rightarrow> error option \<times> world" where
  "file_Close flt h w =
     (let w' = log_event (SysClose h) w in
      case close_fault flt of
        Some e \<Rightarrow> (Some (PathError e), w')
      | None \<Rightarrow> (None, w'))"

section \<open>The root key file\<close>

text \<open>
  \<open>storj.Key\<close> is a fixed-length byte array declared in package \<open>storj\<close>; its
  length \<open>ksz\<close> is a parameter. \<open>storj.Key{}\<close> is the array of zero bytes. A file
  handle is the path it was opened at.
\<close>

definition zero_Key :: "nat \<Rightarrow> byte list" where
  "zero_Key ksz = replicate ksz 0"

definition fill_Key :: "nat \<Rightarrow> byte list \<Rightarrow> byte list" where
  "fill_Key ksz bs = bs @ replicate (ksz - length bs) 0"

definition keyFilepath_Key ::
  "nat \<Rightarrow> os_faults \<Rightarrow> string \<Rightarrow> world \<Rightarrow> (byte list \<times> error option) \<times> world" where
  "keyFilepath_Key ksz flt kfp w =
     (case os_Open flt kfp w of
        (Inl err, w1) \<Rightarrow>
          if IsNotExist err
          then ((zero_Key ksz,
                 Some (Class_Wrap uplink_Error
                         (fmt_Errorf ''not found key file %q'' [ArgString kfp]))), w1)
          else ((zero_Key ksz, Some (errs_Wrap err)), w1)
      | (Inr f, w1) \<Rightarrow>
          (case file_Stat flt f w1 of
             (Inl err, w2) \<Rightarrow> ((zero_Key ksz, Some (errs_Wrap err)), w2)
           | (Inr fi, w2) \<Rightarrow>
               if Perm fi \<noteq> mode_0400
               then ((zero_Key ksz,
                      Some (Class_Wrap uplink_Error
                              (fmt_Errorf ''permissions '%#o' for key file %q are too open''
                                 [ArgMode (Perm fi), ArgString kfp]))), w2)
               else
                 (case file_Read flt f ksz w2 of
                    ((bs, Some err), w3) \<Rightarrow>
                      if err \<noteq> io_EOF then ((zero_Key ksz, Some (errs_Wrap err)), w3)
                      else ((fill_Key ksz bs, None), w3)
                  | ((bs, None), w3) \<Rightarrow> ((fill_Key ksz bs, None), w3))))"

text \<open>
  SaveEncryptionKey (cmd/uplink/cmd/setup.go). The deferred function closes the file on
  every path after a successful open; the error of Close is returned only when nothing
  failed before.
\<close>

definition SaveEncryptionKey ::
  "os_faults \<Rightarrow> byte list \<Rightarrow> string \<Rightarrow> world \<Rightarrow> error option \<times> world" where
  "SaveEncryptionKey flt key filepath w =
     (case os_OpenFile_excl flt filepath mode_0600 w of
        (Inl err, w1) \<Rightarrow>
          if IsNotExist err then (Some (errors_New ''directory path doesn't exist''), w1)
          else if IsExist err then (Some (errors_New ''file key already exists''), w1)
          else (Some err, w1)
      | (Inr f, w1) \<Rightarrow>
          (case file_Write flt f key w1 of
             (Some err, w2) \<Rightarrow> (Some err, snd (file_Close flt f w2))
           | (None, w2) \<Rightarrow>
               (case file_Chmod flt f mode_0400 w2 of
                  (Some err, w3) \<Rightarrow> (Some err, snd (file_Close flt f w3))
                | (None, w3) \<Rightarrow> file_Close flt f w3)))"

text \<open>Worlds used in examples, with the umask 022 (decimal 18).\<close>

definition empty_world :: world where
  "empty_world = \<lparr>files = Map.empty, trace = [], umask = 18\<rparr>"

definition key_world :: "FileMode \<Rightarrow> world" where
  "key_world m = \<lparr>files = [''/home/u/.enc.key'' \<mapsto> \<lparr>contents = [1, 2, 3], mode = m\<rparr>],
     trace = [], umask = 18\<rparr>"

section \<open>Constructing the stores: Config.GetMetainfo\<close>

text \<open>
  Go's \<open>a % b\<close> on \<open>int\<close>: the remainder of the division that truncates towards
  zero. The caller checks \<open>b = 0\<close> first, where Go panics.
\<close>

definition go_rem :: "go_int \<Rightarrow> go_int \<Rightarrow> go_int" where
  "go_rem a b = word_of_int (sint a smod sint b)"

text \<open>
  The erasure coder, the scheme that pairs it with the erasure share size, and the
  redundancy strategy that adds the repair and the optimal threshold.
\<close>

record FEC =
  fec_k :: go_int
  fec_n :: go_int

record RSScheme =
  scheme_fc :: FEC
  scheme_shareSize :: go_int

record RedundancyStrategy =
  ErasureScheme :: RSScheme
  repairThreshold :: go_int
  optimalThreshold :: go_int

text \<open>
  Modelled from the spec: \<open>infectious.NewFEC\<close> lies outside this development.
  Section 4.2 says that construction validates \<open>0 < k \<le> m \<le> o \<le> n\<close> and
  \<open>ErasureShareSize > 0\<close> and that a violation is an error. NewFEC receives k and n
  only, so it validates \<open>0 < k \<le> n\<close>.
\<close>

definition NewFEC :: "go_int \<Rightarrow> go_int \<Rightarrow> error + FEC" where
  "NewFEC k n =
     (if 0 < sint k \<and> sint k \<le> sint n then Inr \<lparr>fec_k = k, fec_n = n\<rparr>
      else Inl (External ''invalid required and total share counts''))"

text \<open>
  Modelled from the spec: \<open>eestream.NewRSScheme\<close> lies outside this development; it
  pairs the coder with the erasure share size and cannot fail.
\<close>

definition NewRSScheme :: "FEC \<Rightarrow> go_int \<Rightarrow> RSScheme" where
  "NewRSScheme f n = \<lparr>scheme_fc = f, scheme_shareSize = n\<rparr>"

text \<open>
  Modelled from the spec: \<open>eestream.NewRedundancyStrategy\<close> lies outside this
  development. It receives the scheme (k, n and the erasure share size) and m and o, so
  of the validation of section 4.2 it performs what NewFEC could not:
  \<open>k \<le> m \<le> o \<le> n\<close> and \<open>ErasureShareSize > 0\<close>.
\<close>

definition NewRedundancyStrategy ::
  "RSScheme \<Rightarrow> go_int \<Rightarrow> go_int \<Rightarrow> error + RedundancyStrategy" where
  "NewRedundancyStrategy es repair optimal =
     (if sint (fec_k (scheme_fc es)) \<le> sint repair \<and> sint repair \<le> sint optimal
         \<and> sint optimal \<le> sint (fec_n (scheme_fc es)) \<and> 0 < sint (scheme_shareSize es)
      then Inr \<lparr>ErasureScheme = es, repairThreshold = repair, optimalThreshold = optimal\<rparr>
      else Inl (External ''invalid repair and optimal thresholds''))"

text \<open>
  The other collaborators of GetMetainfo lie outside this development and the
  specification does not say when they fail: what they return is an input of the model.
  \<open>metainfo.NewClient\<close> connects to the satellite; the attempt is the event
  \<open>NetDial\<close>. The stores that GetMetainfo returns are represented by what they were
  constructed from. GetMetainfo has a value receiver: its assignment of the key to
  \<open>c.Enc.Key\<close> changes a local copy of the configuration only, and is left out.
\<close>

record ('id, 'tls, 'c) collaborators =
  tlsopts_NewOptions :: "'id \<Rightarrow> 'tls \<Rightarrow> error option"
  metainfo_NewClient :: "string \<Rightarrow> string \<Rightarrow> error option"
  CalcEncryptedSize :: "int64 \<Rightarrow> 'c EncryptionScheme \<Rightarrow> error + int64"
  NewStreamStore :: "int64 \<Rightarrow> byte list \<Rightarrow> go_int \<Rightarrow> 'c \<Rightarrow> error option"
  storj_Cipher :: "go_int \<Rightarrow> 'c"

record 'c stores =
  satellite :: string
  maxBufferMem :: go_int
  redundancy :: RedundancyStrategy
  maxInlineSize :: go_int
  maxEncryptedSegmentSize :: int64
  segmentSize :: int64
  rootKey :: "byte list"
  encBlockSize :: int32
  dataCipher :: 'c

definition GetMetainfo ::
  "('id, 'tls, 'c) collaborators \<Rightarrow> nat \<Rightarrow> os_faults \<Rightarrow> 'id \<Rightarrow> 'tls Config \<Rightarrow> world
     \<Rightarrow> (error + 'c stores) outcome \<times> world" where
  "GetMetainfo col ksz flt identity c w =
     (case tlsopts_NewOptions col identity (TLS c) of
        Some err \<Rightarrow> (Returns (Inl err), w)
      | None \<Rightarrow>
     (if SatelliteAddr (Client c) = []
      then (Returns (Inl (errors_New ''satellite address not specified'')), w)
      else
      (let w1 = log_event (NetDial (SatelliteAddr (Client c))) w in
      (case metainfo_NewClient col (SatelliteAddr (Client c)) (APIKey (Client c)) of
         Some err \<Rightarrow>
           (Returns (Inl (Class_New uplink_Error
              ''failed to connect to metainfo service: %v'' [err])), w1)
       | None \<Rightarrow>
      (case NewFEC (MinThreshold (RS c)) (MaxThreshold (RS c)) of
         Inl err \<Rightarrow>
           (Returns (Inl (Class_New uplink_Error
              ''failed to create erasure coding client: %v'' [err])), w1)
       | Inr fc \<Rightarrow>
      (case NewRedundancyStrategy (NewRSScheme fc (Size_Int (ErasureShareSize (RS c))))
              (RepairThreshold (RS c)) (SuccessThreshold (RS c)) of
         Inl err \<Rightarrow>
           (Returns (Inl (Class_New uplink_Error
              ''failed to create redundancy strategy: %v'' [err])), w1)
       | Inr rs \<Rightarrow>
      (case CalcEncryptedSize col (Size_Int64 (SegmentSize (Client c)))
              (GetEncryptionScheme (storj_Cipher col) c) of
         Inl err \<Rightarrow>
           (Returns (Inl (Class_New uplink_Error
              ''failed to calculate max encrypted segment size: %v'' [err])), w1)
       | Inr maxEnc \<Rightarrow>
      (if Size_Int (EncryptionConfig.BlockSize (Enc c)) = 0
      then (Panics ''runtime error: integer divide by zero'', w1)
      else if go_rem (Size_Int (ErasureShareSize (RS c)) * MinThreshold (RS c))
                (Size_Int (EncryptionConfig.BlockSize (Enc c))) \<noteq> 0
      then (Returns (Inl (Class_New uplink_Error
              ''EncryptionBlockSize must be a multiple of ErasureShareSize * RS MinThreshold''
              [])), w1)
      else
      (case keyFilepath_Key ksz flt (KeyFilepath (Enc c)) w1 of
         ((key, Some err), w2) \<Rightarrow> (Returns (Inl err), w2)
       | ((key, None), w2) \<Rightarrow>
      (case NewStreamStore col (Size_Int64 (SegmentSize (Client c))) key
              (Size_Int (EncryptionConfig.BlockSize (Enc c)))
              (storj_Cipher col (DataType (Enc c))) of
         Some err \<Rightarrow>
           (Returns (Inl (Class_New uplink_Error
              ''failed to create stream store: %v'' [err])), w2)
       | None \<Rightarrow>
           (Returns (Inr
              \<lparr>satellite = SatelliteAddr (Client c),
               maxBufferMem = Size_Int (MaxBufferMem (RS c)),
               redundancy = rs,
               maxInlineSize = Size_Int (MaxInlineSize (Client c)),
               maxEncryptedSegmentSize = maxEnc,
               segmentSize = Size_Int64 (SegmentSize (Client c)),
               rootKey = key,
               encBlockSize = Size_Int32 (EncryptionConfig.BlockSize (Enc c)),
               dataCipher = storj_Cipher col (DataType (Enc c))\<rparr>), w2)))))))))))"

text \<open>Collaborators that never fail, used in examples.\<close>

definition ok_collaborators :: "(unit, unit, go_int) collaborators" where
  "ok_collaborators =
     \<lparr>tlsopts_NewOptions = (\<lambda>i t. None),
      metainfo_NewClient = (\<lambda>a k. None),
      CalcEncryptedSize = (\<lambda>n s. Inr n),
      NewStreamStore = (\<lambda>n k b c. None),
      storj_Cipher = (\<lambda>d. d)\<rparr>"

text \<open>The threshold ordering of the specification, on a configuration.\<close>

definition thresholds_ordered :: "RSConfig \<Rightarrow> bool" where
  "thresholds_ordered r \<longleftrightarrow>
     0 < sint (MinThreshold r) \<and> sint (MinThreshold r) \<le> sint (RepairThreshold r)
     \<and> sint (RepairThreshold r) \<le> sint (SuccessThreshold r)
     \<and> sint (SuccessThreshold r) \<le> sint (MaxThreshold r)"

text \<open>The steps of GetMetainfo before the connection to the metainfo service succeed.\<close>

definition connects :: "('id, 'tls, 'c) collaborators \<Rightarrow> 'id \<Rightarrow> 'tls Config \<Rightarrow> bool" where
  "connects col identity c \<longleftrightarrow>
     tlsopts_NewOptions col identity (TLS c) = None
     \<and> SatelliteAddr (Client c) \<noteq> []
     \<and> metainfo_NewClient col (SatelliteAddr (Client c)) (APIKey (Client c)) = None"

text \<open>
  Every step of GetMetainfo before the check of the block size succeeds: the connection,
  the two constructors of lines 132 and 136, and the computation of the encrypted size.
\<close>

definition reaches_block_check ::
  "('id, 'tls, 'c) collaborators \<Rightarrow> 'id \<Rightarrow> 'tls Config \<Rightarrow> bool" where
  "reaches_block_check col identity c \<longleftrightarrow>
     connects col identity c
     \<and> (case NewFEC (MinThreshold (RS c)) (MaxThreshold (RS c)) of
          Inl err \<Rightarrow> False
        | Inr f \<Rightarrow>
            (case NewRedundancyStrategy (NewRSScheme f (Size_Int (ErasureShareSize (RS c))))
                    (RepairThreshold (RS c)) (SuccessThreshold (RS c)) of
               Inl err \<Rightarrow> False
             | Inr rs \<Rightarrow>
                 (case CalcEncryptedSize col (Size_Int64 (SegmentSize (Client c)))
                         (GetEncryptionScheme (storj_Cipher col) c) of
                    Inl err \<Rightarrow> False
                  | Inr n \<Rightarrow> True)))"

definition BlockSizeError :: error where
  "BlockSizeError = Class_New uplink_Error
     ''EncryptionBlockSize must be a multiple of ErasureShareSize * RS MinThreshold'' []"

text \<open>
  The two ways in which GetMetainfo finds the redundancy and encryption settings of a
  configuration invalid: one of the two constructors rejects the thresholds, or the
  product of the erasure share size and the minimum threshold, as the code computes it in
  64 bits, is not a multiple of the (non-zero) block size.
\<close>

definition thresholds_rejected :: "'tls Config \<Rightarrow> bool" where
  "thresholds_rejected c \<longleftrightarrow>
     (case NewFEC (MinThreshold (RS c)) (MaxThreshold (RS c)) of
        Inl err \<Rightarrow> True
      | Inr f \<Rightarrow>
          (case NewRedundancyStrategy (NewRSScheme f (Size_Int (ErasureShareSize (RS c))))
                  (RepairThreshold (RS c)) (SuccessThreshold (RS c)) of
             Inl err \<Rightarrow> True
           | Inr rs \<Rightarrow> False))"

definition block_size_mismatch :: "'tls Config \<Rightarrow> bool" where
  "block_size_mismatch c \<longleftrightarrow>
     EncryptionConfig.BlockSize (Enc c) \<noteq> 0
     \<and> sint (ErasureShareSize (RS c) * MinThreshold (RS c))
          mod sint (EncryptionConfig.BlockSize (Enc c)) \<noteq> 0"

section \<open>Erasure coding with the constructed strategy\<close>

text \<open>
  Modelled from the spec: the erasure coder (\<open>infectious.FEC\<close> and its wrapper in
  \<open>eestream\<close>) lies outside this development; GetMetainfo only constructs it. The
  specification calls it Reed-Solomon erasure coding: k data units become n coded units
  and any k of them suffice. The model is the Reed-Solomon code in its textbook form over
  a field \<open>'a\<close>: the k units of a message are the coefficients of a polynomial, constant
  term first, and piece number \<open>i\<close> receives the value of that polynomial at the point
  \<open>pt i\<close>. The field and the points are parameters; the points of the n pieces have to
  be distinct, which bounds n by the size of the field (256 for bytes). Decoding
  interpolates the polynomial through k values.
\<close>

fun poly_eval :: "'a::field list \<Rightarrow> 'a \<Rightarrow> 'a" where
  "poly_eval [] x = 0"
| "poly_eval (c # cs) x = c + x * poly_eval cs x"

fun poly_add :: "'a::field list \<Rightarrow> 'a list \<Rightarrow> 'a list" where
  "poly_add [] q = q"
| "poly_add p [] = p"
| "poly_add (a # p) (b # q) = (a + b) # poly_add p q"

definition poly_scale :: "'a::field \<Rightarrow> 'a list \<Rightarrow> 'a list" where
  "poly_scale c p = map (\<lambda>a. c * a) p"

text \<open>The product of the polynomial \<open>p\<close> and \<open>X - a\<close>.\<close>

definition times_linear :: "'a::field \<Rightarrow> 'a list \<Rightarrow> 'a list" where
  "times_linear a p = poly_add (0 # p) (poly_scale (- a) p)"

text \<open>The product of \<open>X - a\<close> over the points \<open>a\<close> of a list.\<close>

fun vanishing :: "'a::field list \<Rightarrow> 'a list" where
  "vanishing [] = [1]"
| "vanishing (a # as) = times_linear a (vanishing as)"

text \<open>
  Newton's interpolation: the polynomial through the points after the first is corrected
  by a multiple of the polynomial that vanishes on them.
\<close>

fun interpolate :: "('a::field \<times> 'a) list \<Rightarrow> 'a list" where
  "interpolate [] = []"
| "interpolate ((x, y) # ps) =
     (let q = interpolate ps; v = vanishing (map fst ps)
      in poly_add q (poly_scale ((y - poly_eval q x) / poly_eval v x) v))"

text \<open>
  The counts a strategy was constructed with, and the plaintext laid out for encoding:
  filled with zeros up to a multiple of \<open>m\<close> units, and cut into messages of k units.
\<close>

definition RequiredCount :: "RedundancyStrategy \<Rightarrow> nat" where
  "RequiredCount rs = nat (sint (fec_k (scheme_fc (ErasureScheme rs))))"

definition TotalCount :: "RedundancyStrategy \<Rightarrow> nat" where
  "TotalCount rs = nat (sint (fec_n (scheme_fc (ErasureScheme rs))))"

definition ShareSize :: "RedundancyStrategy \<Rightarrow> nat" where
  "ShareSize rs = nat (sint (scheme_shareSize (ErasureScheme rs)))"

definition pad :: "nat \<Rightarrow> 'a::zero list \<Rightarrow> 'a list" where
  "pad m P = P @ replicate ((m - length P mod m) mod m) 0"

definition chunks :: "nat \<Rightarrow> 'a list \<Rightarrow> 'a list list" where
  "chunks k xs = map (\<lambda>j. take k (drop (j * k) xs)) [0..<length xs div k]"

text \<open>
  Modelled from the spec: \<open>Encode(plaintext)\<close> gives n shares of equal size, the
  number of units of the plaintext divided by k and rounded up to the share boundary.
  Share \<open>i\<close> holds, for each message in turn, the value of its polynomial at \<open>pt i\<close>.
\<close>

definition Encode :: "RedundancyStrategy \<Rightarrow> (nat \<Rightarrow> 'a::field) \<Rightarrow> 'a list \<Rightarrow> 'a list list" where
  "Encode rs pt P =
     (let msgs = chunks (RequiredCount rs) (pad (RequiredCount rs * ShareSize rs) P)
      in map (\<lambda>i. map (\<lambda>msg. poly_eval msg (pt i)) msgs) [0..<TotalCount rs])"

text \<open>The ways in which decoding fails.\<close>

datatype ErasureError = NotEnoughShares | DuplicateShares | MismatchedStripeSize

text \<open>
  Modelled from the spec: \<open>Decode(shares, k)\<close> accepts any k distinct shares of equal
  size, identified by piece number, and reconstructs the plaintext; fewer than k valid
  shares, or shares of different sizes, are an ErasureError. The length of the plaintext
  is the size recorded with the segment.
\<close>

definition Decode ::
  "RedundancyStrategy \<Rightarrow> (nat \<Rightarrow> 'a::field) \<Rightarrow> nat \<Rightarrow> (nat \<times> 'a list) list
     \<Rightarrow> ErasureError + 'a list" where
  "Decode rs pt len shares =
     (let valid = filter (\<lambda>s. fst s < TotalCount rs) shares;
          used = take (RequiredCount rs) valid
      in if length valid < RequiredCount rs then Inl NotEnoughShares
         else if \<not> distinct (map fst used) then Inl DuplicateShares
         else
           (case used of
              [] \<Rightarrow> Inr []
            | s # rest \<Rightarrow>
                if \<exists>t\<in>set used. length (snd t) \<noteq> length (snd s)
                then Inl MismatchedStripeSize
                else Inr (take len (concat
                       (map (\<lambda>j. interpolate (map (\<lambda>t. (pt (fst t), snd t ! j)) used))
                          [0..<length (snd s)])))))"

text \<open>A strategy with k = 2 and n = 4 and a share size of one unit, used in examples.\<close>

definition small_rs :: RedundancyStrategy where
  "small_rs = \<lparr>ErasureScheme = NewRSScheme \<lparr>fec_k = 2, fec_n = 4\<rparr> 1,
     repairThreshold = 3, optimalThreshold = 3\<rparr>"

section \<open>Buckets of a project (pkg/metainfo/kvmetainfo)\<close>

text \<open>
  \<open>storj.Bucket\<close> and \<open>buckets.Meta\<close> are declared in other packages; their
  fields are the ones the code reads and writes, and the types of the creation time, the
  cipher, the redundancy scheme and the encryption parameters are type parameters. Go's
  zero value of a type is its \<open>0\<close>, so \<open>storj.Bucket{}\<close> is \<open>empty_Bucket\<close>.
\<close>

record ('t, 'c, 'r, 'p) Bucket =
  Name :: string
  Created :: 't
  PathCipher :: 'c
  SegmentsSize :: int64
  RedundancyScheme :: 'r
  EncryptionParameters :: 'p

record ('t, 'c, 'r, 'e) Meta =
  Created :: 't
  PathEncryptionType :: 'c
  SegmentsSize :: int64
  RedundancyScheme :: 'r
  EncryptionScheme :: 'e

definition empty_Bucket :: "('t::zero, 'c::zero, 'r::zero, 'p::zero) Bucket" where
  "empty_Bucket = \<lparr>Name = [], Created = 0, PathCipher = 0, SegmentsSize = 0,
     RedundancyScheme = 0, EncryptionParameters = 0\<rparr>"

text \<open>
  What package \<open>storj\<close> declares and the code uses: the constant \<open>storj.AESGCM\<close> and
  the two conversions between encryption parameters and encryption schemes.
\<close>

record ('c, 'p, 'e) storj_decls =
  AESGCM :: 'c
  ToEncryptionScheme :: "'p \<Rightarrow> 'e"
  ToEncryptionParameters :: "'e \<Rightarrow> 'p"

text \<open>
  \<open>db.buckets\<close> is a \<open>buckets.Store\<close>, an interface: its methods are functions on
  the state \<open>'s\<close> of whatever implements it. A project is that state together with the
  list of the calls made to the store so far.
\<close>

record ('s, 't, 'c, 'r, 'e) buckets_Store =
  Put :: "string \<Rightarrow> ('t, 'c, 'r, 'e) Meta \<Rightarrow> 's \<Rightarrow> (('t, 'c, 'r, 'e) Meta \<times> error option) \<times> 's"
  Get :: "string \<Rightarrow> 's \<Rightarrow> (('t, 'c, 'r, 'e) Meta \<times> error option) \<times> 's"
  Delete :: "string \<Rightarrow> 's \<Rightarrow> error option \<times> 's"

datatype store_call = CallPut string | CallGet string | CallDelete string

record 's Project =
  buckets :: 's
  calls :: "store_call list"

definition getPathCipher ::
  "('c, 'p, 'e) storj_decls \<Rightarrow> ('t, 'c, 'r, 'p) Bucket option \<Rightarrow> 'c" where
  "getPathCipher decls info =
     (case info of
        None \<Rightarrow> AESGCM decls
      | Some i \<Rightarrow> PathCipher i)"

definition bucketFromMeta ::
  "('c, 'p, 'e) storj_decls \<Rightarrow> string \<Rightarrow> ('t, 'c, 'r, 'e) Meta \<Rightarrow> ('t, 'c, 'r, 'p) Bucket" where
  "bucketFromMeta decls bucketName meta =
     \<lparr>Name = bucketName,
      Created = Meta.Created meta,
      PathCipher = PathEncryptionType meta,
      SegmentsSize = Meta.SegmentsSize meta,
      RedundancyScheme = Meta.RedundancyScheme meta,
      EncryptionParameters = ToEncryptionParameters decls (EncryptionScheme meta)\<rparr>"

definition CreateBucket ::
  "('s, 't, 'c, 'r, 'e) buckets_Store \<Rightarrow> ('c, 'p, 'e) storj_decls \<Rightarrow> 's Project \<Rightarrow> string
     \<Rightarrow> ('t::zero, 'c::zero, 'r::zero, 'p::zero) Bucket option
     \<Rightarrow> (('t, 'c, 'r, 'p) Bucket \<times> error option) \<times> 's Project" where
  "CreateBucket store decls db bucketName info0 =
     (if bucketName = [] then ((empty_Bucket, Some (Class_New storj_ErrNoBucket [] [])), db)
      else
        let info = (case info0 of None \<Rightarrow> empty_Bucket | Some i \<Rightarrow> i);
            res = Put store bucketName
                    \<lparr>Created = 0,
                     PathEncryptionType = getPathCipher decls (Some info),
                     SegmentsSize = Bucket.SegmentsSize info,
                     RedundancyScheme = Bucket.RedundancyScheme info,
                     EncryptionScheme = ToEncryptionScheme decls (EncryptionParameters info)\<rparr>
                    (buckets db);
            db' = db\<lparr>buckets := snd res, calls := calls db @ [CallPut bucketName]\<rparr>
        in case fst res of
             (meta, Some err) \<Rightarrow> ((empty_Bucket, Some err), db')
           | (meta, None) \<Rightarrow> ((bucketFromMeta decls bucketName meta, None), db'))"

definition DeleteBucket ::
  "('s, 't, 'c, 'r, 'e) buckets_Store \<Rightarrow> 's Project \<Rightarrow> string \<Rightarrow> error option \<times> 's Project" where
  "DeleteBucket store db bucketName =
     (if bucketName = [] then (Some (Class_New storj_ErrNoBucket [] []), db)
      else
        let res = Delete store bucketName (buckets db)
        in (fst res, db\<lparr>buckets := snd res, calls := calls db @ [CallDelete bucketName]\<rparr>))"

definition GetBucket ::
  "('s, 't, 'c, 'r, 'e) buckets_Store \<Rightarrow> ('c, 'p, 'e) storj_decls \<Rightarrow> 's Project \<Rightarrow> string
     \<Rightarrow> (('t::zero, 'c::zero, 'r::zero, 'p::zero) Bucket \<times> error option) \<times> 's Project" where
  "GetBucket store decls db bucketName =
     (if bucketName = [] then ((empty_Bucket, Some (Class_New storj_ErrNoBucket [] [])), db)
      else
        let res = Get store bucketName (buckets db);
            db' = db\<lparr>buckets := snd res, calls := calls db @ [CallGet bucketName]\<rparr>
        in case fst res of
             (meta, Some err) \<Rightarrow> ((empty_Bucket, Some err), db')
           | (meta, None) \<Rightarrow> ((bucketFromMeta decls bucketName meta, None), db'))"

section \<open>Properties of the configured schemes\<close>

lemma sint_word_of_int_16: "sint (word_of_int k :: 16 word) = signed_take_bit 15 k"
  by (simp add: sint_sbintrunc')

lemma sint_word_of_int_32: "sint (word_of_int k :: 32 word) = signed_take_bit 31 k"
  by (simp add: sint_sbintrunc')

lemma sint_to_int16:
  assumes "- (2 ^ 15) \<le> sint x" and "sint x < 2 ^ 15"
  shows "sint (to_int16 x) = sint x"
proof -
  have "sint (to_int16 x) = signed_take_bit 15 (sint x)"
    by (simp only: to_int16_def sint_word_of_int_16)
  also have "\<dots> = sint x"
    using assms by (simp add: signed_take_bit_int_eq_self)
  finally show ?thesis .
qed

lemma sint_to_int32:
  assumes "- (2 ^ 31) \<le> sint x" and "sint x < 2 ^ 31"
  shows "sint (to_int32 x) = sint x"
proof -
  have "sint (to_int32 x) = signed_take_bit 31 (sint x)"
    by (simp only: to_int32_def sint_word_of_int_32)
  also have "\<dots> = sint x"
    using assms by (simp add: signed_take_bit_int_eq_self)
  finally show ?thesis .
qed

definition fits_int16 :: "go_int \<Rightarrow> bool" where
  "fits_int16 x \<longleftrightarrow> - (2 ^ 15) \<le> sint x \<and> sint x < 2 ^ 15"

definition fits_int32 :: "64 word \<Rightarrow> bool" where
  "fits_int32 x \<longleftrightarrow> - (2 ^ 31) \<le> sint x \<and> sint x < 2 ^ 31"

text \<open>
  C7, as stated, at a configuration whose MinThreshold is 65540: the scheme reports 4
  required shares, because \<open>int16(c.RS.MinThreshold)\<close> keeps the low 16 bits only.
\<close>

theorem GetRedundancyScheme_truncates:
  "sint (MinThreshold (RS (dev_Config\<lparr>RS := dev_RS\<lparr>MinThreshold := 65540\<rparr>\<rparr>))) = 65540
   \<and> sint (RequiredShares (GetRedundancyScheme
        (dev_Config\<lparr>RS := dev_RS\<lparr>MinThreshold := 65540\<rparr>\<rparr>))) = 4"
  by (simp add: GetRedundancyScheme_def to_int16_def dev_Config_def dev_RS_def)

text \<open>
  C7, amended: for every configuration whose four thresholds are in the range of
  \<open>int16\<close> and whose block size is in the range of \<open>int32\<close>, GetRedundancyScheme
  returns the Reed-Solomon scheme whose RequiredShares, RepairShares, OptimalShares and
  TotalShares are the configured MinThreshold, RepairThreshold, SuccessThreshold and
  MaxThreshold, and GetEncryptionScheme returns the conversion of the configured cipher
  kind together with the configured block size.
\<close>

theorem configured_schemes:
  assumes "fits_int16 (MinThreshold (RS c))"
    and "fits_int16 (RepairThreshold (RS c))"
    and "fits_int16 (SuccessThreshold (RS c))"
    and "fits_int16 (MaxThreshold (RS c))"
    and "fits_int32 (EncryptionConfig.BlockSize (Enc c))"
  shows "Algorithm (GetRedundancyScheme c) = ReedSolomon
    \<and> sint (RequiredShares (GetRedundancyScheme c)) = sint (MinThreshold (RS c))
    \<and> sint (RepairShares (GetRedundancyScheme c)) = sint (RepairThreshold (RS c))
    \<and> sint (OptimalShares (GetRedundancyScheme c)) = sint (SuccessThreshold (RS c))
    \<and> sint (TotalShares (GetRedundancyScheme c)) = sint (MaxThreshold (RS c))
    \<and> Cipher (GetEncryptionScheme cipher_of c) = cipher_of (DataType (Enc c))
    \<and> sint (EncryptionScheme.BlockSize (GetEncryptionScheme cipher_of c))
        = sint (EncryptionConfig.BlockSize (Enc c))"
  using assms
  by (simp add: GetRedundancyScheme_def GetEncryptionScheme_def fits_int16_def
      fits_int32_def sint_to_int16 sint_to_int32)

theorem configured_schemes_witness:
  "fits_int16 (MinThreshold (RS dev_Config))
   \<and> fits_int16 (RepairThreshold (RS dev_Config))
   \<and> fits_int16 (SuccessThreshold (RS dev_Config))
   \<and> fits_int16 (MaxThreshold (RS dev_Config))
   \<and> fits_int32 (EncryptionConfig.BlockSize (Enc dev_Config))
   \<and> sint (RequiredShares (GetRedundancyScheme dev_Config)) = 4
   \<and> sint (RepairShares (GetRedundancyScheme dev_Config)) = 6
   \<and> sint (OptimalShares (GetRedundancyScheme dev_Config)) = 8
   \<and> sint (TotalShares (GetRedundancyScheme dev_Config)) = 10
   \<and> Cipher (GetEncryptionScheme id dev_Config) = 1
   \<and> sint (EncryptionScheme.BlockSize (GetEncryptionScheme id dev_Config)) = 1024"
proof -
  have f: "fits_int16 (MinThreshold (RS dev_Config))"
    "fits_int16 (RepairThreshold (RS dev_Config))"
    "fits_int16 (SuccessThreshold (RS dev_Config))"
    "fits_int16 (MaxThreshold (RS dev_Config))"
    "fits_int32 (EncryptionConfig.BlockSize (Enc dev_Config))"
    by (simp_all add: fits_int16_def fits_int32_def dev_Config_def dev_RS_def dev_Enc_def)
  from configured_schemes [OF f, of id] f show ?thesis
    by (simp add: dev_Config_def dev_RS_def dev_Enc_def)
qed

section \<open>Properties of the partial-upload methods\<close>

text \<open>
  C5: for every session and every input, each of NewPartialUpload, ListPartialUploads,
  PutPartialUpload, FinishPartialUpload and AbortPartialUpload panics with "TODO" and
  leaves the session as it was: no upload state changes.
\<close>

theorem partial_uploads_unimplemented:
  "NewPartialUpload s bucket = (Panics ''TODO'', s)
   \<and> ListPartialUploads s = (Panics ''TODO'', s)
   \<and> PutPartialUpload s = (Panics ''TODO'', s)
   \<and> FinishPartialUpload s = (Panics ''TODO'', s)
   \<and> AbortPartialUpload s bucket uploadID = (Panics ''TODO'', s)"
  by (simp add: NewPartialUpload_def ListPartialUploads_def PutPartialUpload_def
      FinishPartialUpload_def AbortPartialUpload_def)

section \<open>Properties of the bucket operations\<close>

text \<open>
  C10: for the empty bucket name, CreateBucket, GetBucket and DeleteBucket return
  ErrNoBucket whatever the bucket store is, and leave the project as it was: the state of
  the store and the list of calls made to it are unchanged. CreateBucket and GetBucket
  return the empty storj.Bucket value with the error.
\<close>

theorem empty_bucket_name_rejected:
  "CreateBucket store decls db [] info
     = ((empty_Bucket, Some (Class_New storj_ErrNoBucket [] [])), db)
   \<and> GetBucket store decls db [] = ((empty_Bucket, Some (Class_New storj_ErrNoBucket [] [])), db)
   \<and> DeleteBucket store db [] = (Some (Class_New storj_ErrNoBucket [] []), db)"
  by (simp add: CreateBucket_def GetBucket_def DeleteBucket_def)

lemma nonempty_bucket_name_consults_store:
  "bucketName \<noteq> [] \<Longrightarrow>
     calls (snd (GetBucket store decls db bucketName)) = calls db @ [CallGet bucketName]
     \<and> calls (snd (DeleteBucket store db bucketName)) = calls db @ [CallDelete bucketName]
     \<and> calls (snd (CreateBucket store decls db bucketName info)) = calls db @ [CallPut bucketName]"
  by (simp add: CreateBucket_def GetBucket_def DeleteBucket_def Let_def split: prod.splits option.splits)

section \<open>Properties of the root key file\<close>

lemmas os_defs = os_Open_def os_OpenFile_excl_def file_Stat_def file_Read_def file_Write_def
  file_Chmod_def file_Close_def log_event_def update_file_def



lemma Key_too_open:
  assumes "files w kfp = Some f" and "Perm (mode f) \<noteq> mode_0400"
  shows "fst (fst (keyFilepath_Key ksz flt kfp w)) = zero_Key ksz"
    and "snd (fst (keyFilepath_Key ksz flt kfp w)) \<noteq> None"
  using assms by (simp_all add: keyFilepath_Key_def os_defs Let_def split: option.splits)

lemma Key_success:
  assumes "fst (keyFilepath_Key ksz flt kfp w) = (key, None)"
  shows "\<exists>f. files w kfp = Some f \<and> Perm (mode f) = mode_0400
           \<and> key = fill_Key ksz (take ksz (contents f))"
  using assms
  by (auto simp add: keyFilepath_Key_def os_defs Let_def fill_Key_def
      split: option.splits if_splits)

lemma Key_loaded:
  assumes "files w kfp = Some f" and "Perm (mode f) = mode_0400"
    and "lookup_fault flt = None" and "open_fault flt = None"
    and "stat_fault flt = None" and "read_fault flt = None"
  shows "fst (keyFilepath_Key ksz flt kfp w) = (fill_Key ksz (take ksz (contents f)), None)"
  using assms
  by (simp add: keyFilepath_Key_def os_defs Let_def fill_Key_def split: option.splits)

lemma Key_not_found:
  assumes "lookup_fault flt = Some ENOENT \<or> lookup_fault flt = None \<and> files w kfp = None"
  shows "fst (keyFilepath_Key ksz flt kfp w)
    = (zero_Key ksz,
       Some (Class_Wrap uplink_Error (fmt_Errorf ''not found key file %q'' [ArgString kfp])))"
  using assms by (auto simp add: keyFilepath_Key_def os_defs Let_def split: option.splits)

lemma Key_lookup_failed:
  assumes "lookup_fault flt = Some e" and "e \<noteq> ENOENT"
  shows "fst (keyFilepath_Key ksz flt kfp w) = (zero_Key ksz, Some (errs_Wrap (PathError e)))"
  using assms by (simp add: keyFilepath_Key_def os_defs Let_def)

text \<open>
  C8, as stated, at the path \<open>/home/u/.enc.key/k\<close> when \<open>/home/u/.enc.key\<close> is a
  regular file: no file exists at the path, the open fails with ENOTDIR, which
  \<open>os.IsNotExist\<close> does not recognise, and keyFilepath.Key returns that error wrapped, not
  the not-found error.
\<close>

theorem keyFilepath_Key_below_regular_file:
  "files (key_world mode_0400) ''/home/u/.enc.key/k'' = None
   \<and> fst (keyFilepath_Key 4 (no_faults\<lparr>lookup_fault := Some ENOTDIR\<rparr>) ''/home/u/.enc.key/k''
            (key_world mode_0400))
       = ([0, 0, 0, 0], Some (errs_Wrap (PathError ENOTDIR)))
   \<and> errs_Wrap (PathError ENOTDIR)
       \<noteq> Class_Wrap uplink_Error
            (fmt_Errorf ''not found key file %q'' [ArgString ''/home/u/.enc.key/k''])"
  by (simp add: keyFilepath_Key_def os_defs no_faults_def key_world_def Let_def zero_Key_def
      numeral_eq_Suc)

text \<open>
  C8, amended: whenever the key file exists and its permission bits are not exactly 0400,
  keyFilepath.Key returns the zero key and an error. It returns a key without an error
  only when the file exists with permission bits exactly 0400, and the key is then the
  first \<open>ksz\<close> bytes of the file, filled with zero bytes; with such a file and no
  failure of the operating system it does return that key. It returns the zero key and
  the not-found error, which no error about permissions equals, when the open reports
  that the file or a directory of its path does not exist (ENOENT); when resolving the
  path fails in another way, it returns the zero key and that error wrapped.
\<close>

theorem keyFilepath_Key_permissions:
  "(files w kfp = Some f \<and> Perm (mode f) \<noteq> mode_0400 \<longrightarrow>
      fst (fst (keyFilepath_Key ksz flt kfp w)) = zero_Key ksz
      \<and> snd (fst (keyFilepath_Key ksz flt kfp w)) \<noteq> None)
   \<and> (fst (keyFilepath_Key ksz flt kfp w) = (key, None) \<longrightarrow>
        (\<exists>g. files w kfp = Some g \<and> Perm (mode g) = mode_0400
           \<and> key = fill_Key ksz (take ksz (contents g))))
   \<and> (files w kfp = Some f \<and> Perm (mode f) = mode_0400 \<and> lookup_fault flt = None
        \<and> open_fault flt = None \<and> stat_fault flt = None \<and> read_fault flt = None \<longrightarrow>
        fst (keyFilepath_Key ksz flt kfp w) = (fill_Key ksz (take ksz (contents f)), None))
   \<and> (lookup_fault flt = Some ENOENT \<or> lookup_fault flt = None \<and> files w kfp = None \<longrightarrow>
        fst (keyFilepath_Key ksz flt kfp w)
          = (zero_Key ksz,
             Some (Class_Wrap uplink_Error
                     (fmt_Errorf ''not found key file %q'' [ArgString kfp]))))
   \<and> (lookup_fault flt = Some e \<and> e \<noteq> ENOENT \<longrightarrow>
        fst (keyFilepath_Key ksz flt kfp w) = (zero_Key ksz, Some (errs_Wrap (PathError e))))
   \<and> Class_Wrap uplink_Error (fmt_Errorf ''not found key file %q'' [ArgString kfp])
        \<noteq> Class_Wrap uplink_Error
            (fmt_Errorf ''permissions '%#o' for key file %q are too open''
               [ArgMode p, ArgString kfp])"
  using Key_too_open [of w kfp f ksz flt] Key_success [of ksz flt kfp w key]
    Key_loaded [of w kfp f flt ksz] Key_not_found [of flt w kfp ksz]
    Key_lookup_failed [of flt e ksz kfp w]
  by simp

theorem keyFilepath_Key_permissions_witness:
  "fst (keyFilepath_Key 4 no_faults ''/home/u/.enc.key'' (key_world 420))
      = ([0, 0, 0, 0],
         Some (Class_Wrap uplink_Error
                 (fmt_Errorf ''permissions '%#o' for key file %q are too open''
                    [ArgMode 420, ArgString ''/home/u/.enc.key''])))
   \<and> fst (keyFilepath_Key 4 no_faults ''/home/u/.enc.key'' (key_world mode_0400))
      = ([1, 2, 3, 0], None)
   \<and> fst (keyFilepath_Key 4 no_faults ''/home/u/.enc.key'' empty_world)
      = ([0, 0, 0, 0],
         Some (Class_Wrap uplink_Error
                 (fmt_Errorf ''not found key file %q'' [ArgString ''/home/u/.enc.key''])))
   \<and> fst (keyFilepath_Key 4 (no_faults\<lparr>lookup_fault := Some EACCES\<rparr>) ''/home/u/.enc.key''
          (key_world mode_0400))
      = ([0, 0, 0, 0], Some (errs_Wrap (PathError EACCES)))"
proof -
  let ?p = "''/home/u/.enc.key''"
  let ?open = "\<lparr>contents = [1, 2, 3], mode = 420\<rparr> :: os_file"
  let ?tight = "\<lparr>contents = [1, 2, 3], mode = mode_0400\<rparr> :: os_file"
  let ?acc = "no_faults\<lparr>lookup_fault := Some EACCES\<rparr>"
  have a: "files (key_world 420) ?p = Some ?open \<and> Perm (mode ?open) \<noteq> mode_0400"
    by (simp add: key_world_def Perm_def)
  have b: "files (key_world mode_0400) ?p = Some ?tight \<and> Perm (mode ?tight) = mode_0400
      \<and> lookup_fault no_faults = None \<and> open_fault no_faults = None
      \<and> stat_fault no_faults = None \<and> read_fault no_faults = None"
    by (simp add: key_world_def Perm_def no_faults_def)
  have c: "lookup_fault no_faults = None \<and> files empty_world ?p = None"
    by (simp add: empty_world_def no_faults_def)
  have d: "lookup_fault ?acc = Some EACCES \<and> EACCES \<noteq> ENOENT"
    by simp
  have "fst (keyFilepath_Key 4 no_faults ?p (key_world 420))
      = ([0, 0, 0, 0],
         Some (Class_Wrap uplink_Error
                 (fmt_Errorf ''permissions '%#o' for key file %q are too open''
                    [ArgMode 420, ArgString ?p])))"
    using keyFilepath_Key_permissions [of "key_world 420" ?p ?open 4 no_faults "[]" ENOTDIR 0] a
    by (simp add: keyFilepath_Key_def os_defs no_faults_def key_world_def Perm_def
        zero_Key_def numeral_eq_Suc)
  moreover have "fst (keyFilepath_Key 4 no_faults ?p (key_world mode_0400)) = ([1, 2, 3, 0], None)"
    using keyFilepath_Key_permissions
      [of "key_world mode_0400" ?p ?tight 4 no_faults "[]" ENOTDIR 0] b
    by (simp add: fill_Key_def numeral_eq_Suc)
  moreover have "fst (keyFilepath_Key 4 no_faults ?p empty_world)
      = ([0, 0, 0, 0],
         Some (Class_Wrap uplink_Error (fmt_Errorf ''not found key file %q'' [ArgString ?p])))"
    using keyFilepath_Key_permissions [of empty_world ?p ?open 4 no_faults "[]" ENOTDIR 0] c
    by (simp add: zero_Key_def numeral_eq_Suc)
  moreover have "fst (keyFilepath_Key 4 ?acc ?p (key_world mode_0400))
      = ([0, 0, 0, 0], Some (errs_Wrap (PathError EACCES)))"
    using keyFilepath_Key_permissions [of "key_world mode_0400" ?p ?tight 4 ?acc "[]" EACCES 0] d
    by (simp add: zero_Key_def numeral_eq_Suc)
  ultimately show ?thesis by simp
qed

section \<open>Properties of saving the key\<close>

lemma Save_existing:
  assumes "files w path = Some f"
  shows "fst (SaveEncryptionKey flt key path w) \<noteq> None"
    and "files (snd (SaveEncryptionKey flt key path w)) = files w"
  using assms by (simp_all add: SaveEncryptionKey_def os_defs Let_def split: option.splits)

lemma Save_existing_resolved:
  assumes "files w path = Some f" and "lookup_fault flt = None"
  shows "fst (SaveEncryptionKey flt key path w) = Some (errors_New ''file key already exists'')"
  using assms by (simp add: SaveEncryptionKey_def os_defs Let_def)

lemma Save_existing_unresolved:
  assumes "lookup_fault flt = Some e" and "e \<noteq> ENOENT" and "e \<noteq> EEXIST"
  shows "fst (SaveEncryptionKey flt key path w) = Some (PathError e)"
  using assms by (simp add: SaveEncryptionKey_def os_defs Let_def)

lemma Save_success:
  assumes "fst (SaveEncryptionKey flt key path w) = None"
  shows "files w path = None"
    and "files (snd (SaveEncryptionKey flt key path w))
           = (files w)(path \<mapsto> \<lparr>contents = key, mode = mode_0400\<rparr>)"
    and "trace (snd (SaveEncryptionKey flt key path w))
           = trace w @ [SysOpenFile path mode_0600, SysWrite path key,
                        SysChmod path mode_0400, SysClose path]"
    and "files (snd (os_OpenFile_excl flt path mode_0600 w)) path
           = Some \<lparr>contents = [], mode = mode_0600 AND NOT (umask w)\<rparr>"
  using assms
  by (auto simp add: SaveEncryptionKey_def os_defs Let_def
      split: option.splits if_splits prod.splits)

lemma Save_succeeds:
  assumes "files w path = None"
  shows "fst (SaveEncryptionKey no_faults key path w) = None"
  using assms
  by (simp add: SaveEncryptionKey_def os_defs Let_def no_faults_def)



text \<open>
  C9, as stated, at two inputs. With the umask 0777 the new file has no permission bit
  right after the open, not mode 0600, and SaveEncryptionKey still succeeds. With the key
  file in a directory that may not be searched, the open fails with EACCES although the
  file exists, and SaveEncryptionKey returns that error, not "file key already exists".
\<close>

theorem SaveEncryptionKey_umask_and_unsearchable_directory:
  "fst (SaveEncryptionKey no_faults [7, 8] ''/home/u/.enc.key'' (empty_world\<lparr>umask := mode_0777\<rparr>))
      = None
   \<and> files (snd (os_OpenFile_excl no_faults ''/home/u/.enc.key'' mode_0600
        (empty_world\<lparr>umask := mode_0777\<rparr>))) ''/home/u/.enc.key''
      = Some \<lparr>contents = [], mode = 0\<rparr>
   \<and> files (key_world mode_0400) ''/home/u/.enc.key''
      = Some \<lparr>contents = [1, 2, 3], mode = mode_0400\<rparr>
   \<and> fst (SaveEncryptionKey (no_faults\<lparr>lookup_fault := Some EACCES\<rparr>) [7, 8]
        ''/home/u/.enc.key'' (key_world mode_0400))
      = Some (PathError EACCES)"
  by (simp add: SaveEncryptionKey_def os_defs no_faults_def empty_world_def key_world_def Let_def)

text \<open>
  C9, amended: SaveEncryptionKey never overwrites an existing file. If a file exists at
  the path, SaveEncryptionKey returns an error and the file map is unchanged, so the file
  keeps its contents and its permissions; the error is "file key already exists" whenever
  the directories of the path are resolved, and otherwise the error of the open, as it
  is, unless that error is ENOENT or EEXIST. If SaveEncryptionKey succeeds, there was no
  file at the path, the file is created with mode 0600 without the bits of the umask (and
  is empty with that mode right after the open), the key is written, the mode is then set
  to 0400, and the file ends up holding the key with mode 0400. With no file at the path
  and no failure of the operating system it succeeds.
\<close>

theorem SaveEncryptionKey_never_overwrites:
  "(files w path = Some f \<longrightarrow>
      fst (SaveEncryptionKey flt key path w) \<noteq> None
      \<and> files (snd (SaveEncryptionKey flt key path w)) = files w)
   \<and> (files w path = Some f \<and> lookup_fault flt = None \<longrightarrow>
      fst (SaveEncryptionKey flt key path w) = Some (errors_New ''file key already exists''))
   \<and> (lookup_fault flt = Some e \<and> e \<noteq> ENOENT \<and> e \<noteq> EEXIST \<longrightarrow>
      fst (SaveEncryptionKey flt key path w) = Some (PathError e))
   \<and> (fst (SaveEncryptionKey flt key path w) = None \<longrightarrow>
        files w path = None
        \<and> files (snd (os_OpenFile_excl flt path mode_0600 w)) path
            = Some \<lparr>contents = [], mode = mode_0600 AND NOT (umask w)\<rparr>
        \<and> trace (snd (SaveEncryptionKey flt key path w))
            = trace w @ [SysOpenFile path mode_0600, SysWrite path key,
                         SysChmod path mode_0400, SysClose path]
        \<and> files (snd (SaveEncryptionKey flt key path w))
            = (files w)(path \<mapsto> \<lparr>contents = key, mode = mode_0400\<rparr>))
   \<and> (files w path = None \<longrightarrow> fst (SaveEncryptionKey no_faults key path w) = None)"
  using Save_existing [of w path f flt key] Save_existing_resolved [of w path f flt key]
    Save_existing_unresolved [of flt e key path w] Save_success [of flt key path w]
    Save_succeeds [of w path key]
  by simp

theorem SaveEncryptionKey_never_overwrites_witness:
  "fst (SaveEncryptionKey no_faults [7, 8] ''/home/u/.enc.key'' (key_world mode_0400))
      = Some (errors_New ''file key already exists'')
   \<and> files (snd (SaveEncryptionKey no_faults [7, 8] ''/home/u/.enc.key'' (key_world mode_0400)))
        ''/home/u/.enc.key'' = Some \<lparr>contents = [1, 2, 3], mode = mode_0400\<rparr>
   \<and> fst (SaveEncryptionKey (no_faults\<lparr>lookup_fault := Some EACCES\<rparr>) [7, 8]
        ''/home/u/.enc.key'' (key_world mode_0400)) = Some (PathError EACCES)
   \<and> fst (SaveEncryptionKey no_faults [7, 8] ''/home/u/.enc.key'' empty_world) = None
   \<and> files (snd (os_OpenFile_excl no_faults ''/home/u/.enc.key'' mode_0600 empty_world))
        ''/home/u/.enc.key'' = Some \<lparr>contents = [], mode = mode_0600\<rparr>
   \<and> files (snd (SaveEncryptionKey no_faults [7, 8] ''/home/u/.enc.key'' empty_world))
        ''/home/u/.enc.key'' = Some \<lparr>contents = [7, 8], mode = mode_0400\<rparr>"
proof -
  let ?p = "''/home/u/.enc.key''"
  let ?f = "\<lparr>contents = [1, 2, 3], mode = mode_0400\<rparr> :: os_file"
  let ?acc = "no_faults\<lparr>lookup_fault := Some EACCES\<rparr>"
  have a: "files (key_world mode_0400) ?p = Some ?f \<and> lookup_fault no_faults = None"
    by (simp add: key_world_def no_faults_def)
  have b: "files empty_world ?p = None"
    by (simp add: empty_world_def)
  have c: "lookup_fault ?acc = Some EACCES \<and> EACCES \<noteq> ENOENT \<and> EACCES \<noteq> EEXIST"
    by simp
  have u: "mode_0600 AND NOT (umask empty_world) = mode_0600"
    by (simp add: empty_world_def)
  from SaveEncryptionKey_never_overwrites
    [of "key_world mode_0400" ?p ?f no_faults "[7, 8]" EACCES] a
  have "fst (SaveEncryptionKey no_faults [7, 8] ?p (key_world mode_0400))
          = Some (errors_New ''file key already exists'')
      \<and> files (snd (SaveEncryptionKey no_faults [7, 8] ?p (key_world mode_0400))) ?p = Some ?f"
    by simp
  moreover
  from SaveEncryptionKey_never_overwrites
    [of "key_world mode_0400" ?p ?f ?acc "[7, 8]" EACCES] c
  have "fst (SaveEncryptionKey ?acc [7, 8] ?p (key_world mode_0400)) = Some (PathError EACCES)"
    by simp
  moreover
  from SaveEncryptionKey_never_overwrites [of empty_world ?p ?f no_faults "[7, 8]" EACCES] b
  have "fst (SaveEncryptionKey no_faults [7, 8] ?p empty_world) = None
      \<and> files (snd (os_OpenFile_excl no_faults ?p mode_0600 empty_world)) ?p
          = Some \<lparr>contents = [], mode = mode_0600\<rparr>
      \<and> files (snd (SaveEncryptionKey no_faults [7, 8] ?p empty_world)) ?p
          = Some \<lparr>contents = [7, 8], mode = mode_0400\<rparr>"
    by (simp add: u)
  ultimately show ?thesis by simp
qed

section \<open>Where the root key is stored\<close>





section \<open>Properties of Config.GetMetainfo\<close>

lemma smod_eq_0_iff: "(a::int) smod b = 0 \<longleftrightarrow> b dvd a"
  by (auto simp add: signed_modulo_int_def sgn_if dvd_eq_mod_eq_0 [symmetric] split: if_splits)

lemma smod_bound: "b \<noteq> 0 \<Longrightarrow> \<bar>(a::int) smod b\<bar> < \<bar>b\<bar>"
  by (simp add: signed_modulo_int_def abs_mult abs_sgn_eq)

lemma word_of_int_eq_0_small:
  assumes "\<bar>x\<bar> < 2 ^ 64"
  shows "(word_of_int x :: 64 word) = 0 \<longleftrightarrow> x = 0"
proof
  assume "(word_of_int x :: 64 word) = 0"
  then have "(2::int) ^ 64 dvd x"
    by (simp add: word_of_int_eq_0_iff)
  with assms show "x = 0"
    using zdvd_not_zless [of "\<bar>x\<bar>" "2 ^ 64"] by auto
qed simp

lemma go_rem_eq_0_iff:
  assumes "b \<noteq> 0"
  shows "go_rem a b = 0 \<longleftrightarrow> sint b dvd sint a"
proof -
  have b0: "sint b \<noteq> 0" using assms by (simp add: signed_eq_0_iff)
  have "\<bar>sint b\<bar> \<le> 2 ^ 63"
    using sint_ge [of b] sint_lt [of b] by simp
  with smod_bound [OF b0, of "sint a"] have "\<bar>sint a smod sint b\<bar> < 2 ^ 64" by simp
  then show ?thesis
    by (simp only: go_rem_def word_of_int_eq_0_small smod_eq_0_iff)
qed

lemma sint_mult_no_overflow:
  fixes a b :: "64 word"
  assumes "- (2 ^ 63) \<le> sint a * sint b" and "sint a * sint b < 2 ^ 63"
  shows "sint (a * b) = sint a * sint b"
  using assms by (simp add: sint_word_ariths signed_take_bit_int_eq_self)


lemma go_rem_mod:
  assumes "b \<noteq> 0"
  shows "go_rem a b \<noteq> 0 \<longleftrightarrow> sint a mod sint b \<noteq> 0"
  by (simp add: go_rem_eq_0_iff [OF assms] dvd_eq_mod_eq_0)

lemma GetMetainfo_at_block_check:
  assumes "connects col identity c"
    and "NewFEC (MinThreshold (RS c)) (MaxThreshold (RS c)) = Inr f"
    and "NewRedundancyStrategy (NewRSScheme f (Size_Int (ErasureShareSize (RS c))))
           (RepairThreshold (RS c)) (SuccessThreshold (RS c)) = Inr rs"
    and "CalcEncryptedSize col (Size_Int64 (SegmentSize (Client c)))
           (GetEncryptionScheme (storj_Cipher col) c) = Inr maxEnc"
  shows "GetMetainfo col ksz flt identity c w =
    (let w1 = log_event (NetDial (SatelliteAddr (Client c))) w;
         B = Size_Int (EncryptionConfig.BlockSize (Enc c)) in
     if B = 0 then (Panics ''runtime error: integer divide by zero'', w1)
     else if go_rem (Size_Int (ErasureShareSize (RS c)) * MinThreshold (RS c)) B \<noteq> 0
     then (Returns (Inl BlockSizeError), w1)
     else
      (case keyFilepath_Key ksz flt (KeyFilepath (Enc c)) w1 of
         ((key, Some err), w2) \<Rightarrow> (Returns (Inl err), w2)
       | ((key, None), w2) \<Rightarrow>
      (case NewStreamStore col (Size_Int64 (SegmentSize (Client c))) key B
              (storj_Cipher col (DataType (Enc c))) of
         Some err \<Rightarrow>
           (Returns (Inl (Class_New uplink_Error
              ''failed to create stream store: %v'' [err])), w2)
       | None \<Rightarrow>
           (Returns (Inr
              \<lparr>satellite = SatelliteAddr (Client c),
               maxBufferMem = Size_Int (MaxBufferMem (RS c)),
               redundancy = rs,
               maxInlineSize = Size_Int (MaxInlineSize (Client c)),
               maxEncryptedSegmentSize = maxEnc,
               segmentSize = Size_Int64 (SegmentSize (Client c)),
               rootKey = key,
               encBlockSize = Size_Int32 (EncryptionConfig.BlockSize (Enc c)),
               dataCipher = storj_Cipher col (DataType (Enc c))\<rparr>), w2))))"
  using assms
  by (simp add: GetMetainfo_def connects_def Let_def BlockSizeError_def)

lemma reaches_block_checkE:
  assumes "reaches_block_check col identity c"
  obtains f rs maxEnc where "connects col identity c"
    and "NewFEC (MinThreshold (RS c)) (MaxThreshold (RS c)) = Inr f"
    and "NewRedundancyStrategy (NewRSScheme f (Size_Int (ErasureShareSize (RS c))))
           (RepairThreshold (RS c)) (SuccessThreshold (RS c)) = Inr rs"
    and "CalcEncryptedSize col (Size_Int64 (SegmentSize (Client c)))
           (GetEncryptionScheme (storj_Cipher col) c) = Inr maxEnc"
  using assms by (auto simp add: reaches_block_check_def split: sum.splits)

lemma Key_error_not_Class_New:
  assumes "fst (keyFilepath_Key ksz flt kfp w) = (key, Some err)"
  shows "err \<noteq> Class_New cl msg es"
  using assms
  by (auto simp add: keyFilepath_Key_def os_defs Let_def split: option.splits if_splits)

lemma Key_opens: "SysOpen kfp \<in> set (trace (snd (keyFilepath_Key ksz flt kfp w)))"
  by (auto simp add: keyFilepath_Key_def os_defs Let_def split: option.splits if_splits)

lemma block_check_iff:
  assumes "reaches_block_check col identity c"
  shows "fst (GetMetainfo col ksz flt identity c w) = Returns (Inl BlockSizeError)
     \<longleftrightarrow> block_size_mismatch c"
proof -
  let ?B = "EncryptionConfig.BlockSize (Enc c)"
  let ?w1 = "log_event (NetDial (SatelliteAddr (Client c))) w"
  from assms obtain f rs maxEnc where at: "connects col identity c"
    "NewFEC (MinThreshold (RS c)) (MaxThreshold (RS c)) = Inr f"
    "NewRedundancyStrategy (NewRSScheme f (Size_Int (ErasureShareSize (RS c))))
           (RepairThreshold (RS c)) (SuccessThreshold (RS c)) = Inr rs"
    "CalcEncryptedSize col (Size_Int64 (SegmentSize (Client c)))
           (GetEncryptionScheme (storj_Cipher col) c) = Inr maxEnc"
    by (rule reaches_block_checkE)
  show ?thesis
  proof (cases "?B = 0")
    case True
    then show ?thesis
      by (simp add: GetMetainfo_at_block_check [OF at] Let_def Size_Int_def
          block_size_mismatch_def)
  next
    case False
    note rem = go_rem_mod [OF False, of "ErasureShareSize (RS c) * MinThreshold (RS c)"]
    from False rem Key_error_not_Class_New [of ksz flt "KeyFilepath (Enc c)" ?w1]
    show ?thesis
      by (auto simp add: GetMetainfo_at_block_check [OF at] Let_def Size_Int_def
          block_size_mismatch_def BlockSizeError_def split: prod.splits option.splits)
  qed
qed

lemma block_check_passes:
  assumes "reaches_block_check col identity c"
    and "EncryptionConfig.BlockSize (Enc c) \<noteq> 0"
    and "\<not> block_size_mismatch c"
  shows "SysOpen (KeyFilepath (Enc c))
    \<in> set (trace (snd (GetMetainfo col ksz flt identity c w)))"
proof -
  let ?w1 = "log_event (NetDial (SatelliteAddr (Client c))) w"
  from assms(1) obtain f rs maxEnc where at: "connects col identity c"
    "NewFEC (MinThreshold (RS c)) (MaxThreshold (RS c)) = Inr f"
    "NewRedundancyStrategy (NewRSScheme f (Size_Int (ErasureShareSize (RS c))))
           (RepairThreshold (RS c)) (SuccessThreshold (RS c)) = Inr rs"
    "CalcEncryptedSize col (Size_Int64 (SegmentSize (Client c)))
           (GetEncryptionScheme (storj_Cipher col) c) = Inr maxEnc"
    by (rule reaches_block_checkE)
  note rem = go_rem_mod [OF assms(2), of "ErasureShareSize (RS c) * MinThreshold (RS c)"]
  from assms(2,3) rem Key_opens [of "KeyFilepath (Enc c)" ksz flt ?w1]
  show ?thesis
    by (auto simp add: GetMetainfo_at_block_check [OF at] Let_def Size_Int_def
        block_size_mismatch_def split: prod.splits option.splits)
qed


lemma GetMetainfo_rejects:
  assumes "connects col identity c" and "thresholds_rejected c"
  shows "\<exists>e. GetMetainfo col ksz flt identity c w
      = (Returns (Inl (Class_New uplink_Error ''failed to create erasure coding client: %v'' [e])),
         log_event (NetDial (SatelliteAddr (Client c))) w)
    \<or> GetMetainfo col ksz flt identity c w
      = (Returns (Inl (Class_New uplink_Error ''failed to create redundancy strategy: %v'' [e])),
         log_event (NetDial (SatelliteAddr (Client c))) w)"
  using assms
  by (auto simp add: GetMetainfo_def connects_def thresholds_rejected_def Let_def
      split: sum.splits)


lemma GetMetainfo_size_error:
  assumes "connects col identity c"
    and "NewFEC (MinThreshold (RS c)) (MaxThreshold (RS c)) = Inr f"
    and "NewRedundancyStrategy (NewRSScheme f (Size_Int (ErasureShareSize (RS c))))
           (RepairThreshold (RS c)) (SuccessThreshold (RS c)) = Inr rs"
    and "CalcEncryptedSize col (Size_Int64 (SegmentSize (Client c)))
               (GetEncryptionScheme (storj_Cipher col) c) = Inl e"
  shows "GetMetainfo col ksz flt identity c w
      = (Returns (Inl (Class_New uplink_Error
              ''failed to calculate max encrypted segment size: %v'' [e])),
         log_event (NetDial (SatelliteAddr (Client c))) w)"
  using assms
  by (simp add: GetMetainfo_def connects_def Let_def)

lemma config_error_after_connect:
  assumes "connects col identity c" and "thresholds_rejected c \<or> block_size_mismatch c"
  shows "\<exists>msg es. GetMetainfo col ksz flt identity c w
     = (Returns (Inl (Class_New uplink_Error msg es)),
        log_event (NetDial (SatelliteAddr (Client c))) w)"
proof (cases "thresholds_rejected c")
  case True
  from GetMetainfo_rejects [OF assms(1) True, of ksz flt w]
  show ?thesis by blast
next
  case False
  then obtain f rs where ok: "NewFEC (MinThreshold (RS c)) (MaxThreshold (RS c)) = Inr f"
    "NewRedundancyStrategy (NewRSScheme f (Size_Int (ErasureShareSize (RS c))))
           (RepairThreshold (RS c)) (SuccessThreshold (RS c)) = Inr rs"
    by (auto simp add: thresholds_rejected_def split: sum.splits)
  from False assms(2) have mm: "block_size_mismatch c" by simp
  show ?thesis
  proof (cases "CalcEncryptedSize col (Size_Int64 (SegmentSize (Client c)))
               (GetEncryptionScheme (storj_Cipher col) c)")
    case (Inl e)
    from GetMetainfo_size_error [OF assms(1) ok Inl] show ?thesis by blast
  next
    case (Inr n)
    with assms(1) ok have r: "reaches_block_check col identity c"
      by (simp add: reaches_block_check_def)
    from mm have B: "EncryptionConfig.BlockSize (Enc c) \<noteq> 0"
      by (simp add: block_size_mismatch_def)
    from mm have "go_rem (Size_Int (ErasureShareSize (RS c)) * MinThreshold (RS c))
        (Size_Int (EncryptionConfig.BlockSize (Enc c))) \<noteq> 0"
      by (simp add: go_rem_mod [OF B] Size_Int_def block_size_mismatch_def)
    with B have "GetMetainfo col ksz flt identity c w
      = (Returns (Inl BlockSizeError), log_event (NetDial (SatelliteAddr (Client c))) w)"
      by (simp add: GetMetainfo_at_block_check [OF assms(1) ok Inr] Let_def Size_Int_def)
    then show ?thesis by (auto simp add: BlockSizeError_def)
  qed
qed

lemma dev_connects: "connects ok_collaborators () (dev_Config\<lparr>RS := r, Enc := e\<rparr>)"
  by (simp add: connects_def ok_collaborators_def dev_Config_def dev_Client_def)

lemma dev_thresholds: "thresholds_ordered dev_RS"
  by (simp add: thresholds_ordered_def dev_RS_def)

lemma dev_reaches:
  "reaches_block_check ok_collaborators () (dev_Config\<lparr>RS := dev_RS, Enc := e\<rparr>)"
proof -
  have "NewFEC (MinThreshold dev_RS) (MaxThreshold dev_RS) = Inr \<lparr>fec_k = 4, fec_n = 10\<rparr>"
    by (simp add: NewFEC_def dev_RS_def)
  moreover have "\<exists>rs. NewRedundancyStrategy
      (NewRSScheme \<lparr>fec_k = 4, fec_n = 10\<rparr> (Size_Int (ErasureShareSize dev_RS)))
      (RepairThreshold dev_RS) (SuccessThreshold dev_RS) = Inr rs"
    by (simp add: NewRedundancyStrategy_def NewRSScheme_def dev_RS_def Size_Int_def)
  moreover have "CalcEncryptedSize ok_collaborators n s = Inr n" for n s
    by (simp add: ok_collaborators_def)
  ultimately show ?thesis
    using dev_connects [where r = dev_RS and e = e]
    by (auto simp add: reaches_block_check_def)
qed

text \<open>
  C2, as stated, at three configurations. At the development configuration when the key
  file does not exist, the product 1024 * 4 is a multiple of the block size 1024, and
  GetMetainfo still fails with an error of the class "Uplink configuration error", the
  one of the missing key file. At the block size 0, GetMetainfo does not return a
  configuration error: the remainder operation panics. At the erasure share size
  \<open>2 ^ 62\<close>, the minimum threshold 4 and the block size 3, the product \<open>2 ^ 64\<close> leaves
  the remainder 1 when divided by 3, but the code computes the product in 64 bits, where
  it is 0: the check passes and GetMetainfo returns the stores.
\<close>

theorem GetMetainfo_block_size_condition_fails:
  "fst (GetMetainfo ok_collaborators 32 no_faults () dev_Config empty_world)
      = Returns (Inl (Class_Wrap uplink_Error
          (fmt_Errorf ''not found key file %q'' [ArgString ''/home/u/.enc.key''])))
   \<and> (sint (ErasureShareSize (RS dev_Config)) * sint (MinThreshold (RS dev_Config)))
        mod sint (EncryptionConfig.BlockSize (Enc dev_Config)) = 0
   \<and> fst (GetMetainfo ok_collaborators 32 no_faults ()
        (dev_Config\<lparr>Enc := dev_Enc\<lparr>EncryptionConfig.BlockSize := 0\<rparr>\<rparr>) empty_world)
      = Panics ''runtime error: integer divide by zero''
   \<and> fst (GetMetainfo ok_collaborators 4 no_faults ()
        (dev_Config\<lparr>RS := dev_RS\<lparr>ErasureShareSize := 4611686018427387904\<rparr>,
                     Enc := dev_Enc\<lparr>EncryptionConfig.BlockSize := 3\<rparr>\<rparr>)
        (key_world mode_0400))
      = Returns (Inr
          \<lparr>satellite = ''127.0.0.1:10000'',
           maxBufferMem = 4194304,
           redundancy =
             \<lparr>ErasureScheme =
                \<lparr>scheme_fc = \<lparr>fec_k = 4, fec_n = 10\<rparr>,
                 scheme_shareSize = 4611686018427387904\<rparr>,
              repairThreshold = 6, optimalThreshold = 8\<rparr>,
           maxInlineSize = 4096,
           maxEncryptedSegmentSize = 67108864,
           segmentSize = 67108864,
           rootKey = [1, 2, 3, 0],
           encBlockSize = 3,
           dataCipher = 1\<rparr>)
   \<and> (sint (4611686018427387904 :: memory_Size) * sint (4 :: go_int))
        mod sint (3 :: memory_Size) = 1"
proof -
  have 1: "fst (GetMetainfo ok_collaborators 32 no_faults () dev_Config empty_world)
      = Returns (Inl (Class_Wrap uplink_Error
          (fmt_Errorf ''not found key file %q'' [ArgString ''/home/u/.enc.key''])))"
    by (simp add: GetMetainfo_def ok_collaborators_def NewFEC_def NewRedundancyStrategy_def
        NewRSScheme_def Let_def dev_Config_def dev_RS_def dev_Enc_def dev_Client_def
        Size_Int_def go_rem_def signed_modulo_int_def keyFilepath_Key_def os_defs
        no_faults_def empty_world_def)
  have 2: "(sint (ErasureShareSize (RS dev_Config)) * sint (MinThreshold (RS dev_Config)))
        mod sint (EncryptionConfig.BlockSize (Enc dev_Config)) = 0"
    by (simp add: dev_Config_def dev_RS_def dev_Enc_def)
  have 3: "fst (GetMetainfo ok_collaborators 32 no_faults ()
        (dev_Config\<lparr>Enc := dev_Enc\<lparr>EncryptionConfig.BlockSize := 0\<rparr>\<rparr>) empty_world)
      = Panics ''runtime error: integer divide by zero''"
    by (simp add: GetMetainfo_def ok_collaborators_def NewFEC_def NewRedundancyStrategy_def
        NewRSScheme_def Let_def dev_Config_def dev_RS_def dev_Enc_def dev_Client_def
        Size_Int_def)
  have k: "fill_Key 4 [1, 2, 3] = [1, 2, 3, 0]"
    by (simp add: fill_Key_def numeral_eq_Suc)
  have i: "to_int32 3 = 3"
    by (simp add: to_int32_def)
  have 4: "fst (GetMetainfo ok_collaborators 4 no_faults ()
        (dev_Config\<lparr>RS := dev_RS\<lparr>ErasureShareSize := 4611686018427387904\<rparr>,
                     Enc := dev_Enc\<lparr>EncryptionConfig.BlockSize := 3\<rparr>\<rparr>)
        (key_world mode_0400))
      = Returns (Inr
          \<lparr>satellite = ''127.0.0.1:10000'',
           maxBufferMem = 4194304,
           redundancy =
             \<lparr>ErasureScheme =
                \<lparr>scheme_fc = \<lparr>fec_k = 4, fec_n = 10\<rparr>,
                 scheme_shareSize = 4611686018427387904\<rparr>,
              repairThreshold = 6, optimalThreshold = 8\<rparr>,
           maxInlineSize = 4096,
           maxEncryptedSegmentSize = 67108864,
           segmentSize = 67108864,
           rootKey = [1, 2, 3, 0],
           encBlockSize = 3,
           dataCipher = 1\<rparr>)"
    by (simp add: GetMetainfo_def ok_collaborators_def NewFEC_def NewRedundancyStrategy_def
        NewRSScheme_def Let_def dev_Config_def dev_RS_def dev_Enc_def dev_Client_def
        Size_Int_def Size_Int64_def Size_Int32_def go_rem_def signed_modulo_int_def
        keyFilepath_Key_def os_defs no_faults_def key_world_def Perm_def k i)
  have 5: "(sint (4611686018427387904 :: memory_Size) * sint (4 :: go_int))
        mod sint (3 :: memory_Size) = 1"
    by simp
  from 1 2 3 4 5 show ?thesis by (simp only: simp_thms)
qed

text \<open>
  C2, amended: when every step of GetMetainfo before the check of the block size
  succeeds, GetMetainfo returns the error "EncryptionBlockSize must be a multiple of
  ErasureShareSize * RS MinThreshold" if and only if the block size is not zero and the
  product of ErasureShareSize and MinThreshold, computed in 64 bits, leaves a remainder
  when divided by the block size. When the block size is not zero and the remainder is
  zero the check passes: GetMetainfo goes on to open the key file. The 64-bit product is
  the product of the two numbers whenever that fits in 64 bits.
\<close>

theorem block_size_check:
  assumes "reaches_block_check col identity c"
  shows "(fst (GetMetainfo col ksz flt identity c w) = Returns (Inl BlockSizeError)
           \<longleftrightarrow> EncryptionConfig.BlockSize (Enc c) \<noteq> 0
               \<and> sint (ErasureShareSize (RS c) * MinThreshold (RS c))
                    mod sint (EncryptionConfig.BlockSize (Enc c)) \<noteq> 0)
    \<and> (EncryptionConfig.BlockSize (Enc c) \<noteq> 0
         \<and> sint (ErasureShareSize (RS c) * MinThreshold (RS c))
              mod sint (EncryptionConfig.BlockSize (Enc c)) = 0
        \<longrightarrow> SysOpen (KeyFilepath (Enc c))
              \<in> set (trace (snd (GetMetainfo col ksz flt identity c w))))
    \<and> (- (2 ^ 63) \<le> sint (ErasureShareSize (RS c)) * sint (MinThreshold (RS c))
         \<and> sint (ErasureShareSize (RS c)) * sint (MinThreshold (RS c)) < 2 ^ 63
        \<longrightarrow> sint (ErasureShareSize (RS c) * MinThreshold (RS c))
              = sint (ErasureShareSize (RS c)) * sint (MinThreshold (RS c)))"
proof -
  let ?B = "EncryptionConfig.BlockSize (Enc c)"
  let ?P = "ErasureShareSize (RS c) * MinThreshold (RS c)"
  have 1: "fst (GetMetainfo col ksz flt identity c w) = Returns (Inl BlockSizeError)
           \<longleftrightarrow> ?B \<noteq> 0 \<and> sint ?P mod sint ?B \<noteq> 0"
    using block_check_iff [OF assms, of ksz flt w]
    by (simp add: block_size_mismatch_def)
  have 2: "?B \<noteq> 0 \<and> sint ?P mod sint ?B = 0
        \<longrightarrow> SysOpen (KeyFilepath (Enc c))
              \<in> set (trace (snd (GetMetainfo col ksz flt identity c w)))"
    using block_check_passes [OF assms, of ksz flt w]
    by (simp add: block_size_mismatch_def)
  have 3: "- (2 ^ 63) \<le> sint (ErasureShareSize (RS c)) * sint (MinThreshold (RS c))
         \<and> sint (ErasureShareSize (RS c)) * sint (MinThreshold (RS c)) < 2 ^ 63
        \<longrightarrow> sint ?P = sint (ErasureShareSize (RS c)) * sint (MinThreshold (RS c))"
    using sint_mult_no_overflow [of "ErasureShareSize (RS c)" "MinThreshold (RS c)"] by blast
  from 1 2 3 show ?thesis by blast
qed

theorem block_size_check_witness:
  "reaches_block_check ok_collaborators ()
     (dev_Config\<lparr>RS := dev_RS, Enc := dev_Enc\<lparr>EncryptionConfig.BlockSize := 1000\<rparr>\<rparr>)
   \<and> fst (GetMetainfo ok_collaborators 32 no_faults ()
        (dev_Config\<lparr>RS := dev_RS, Enc := dev_Enc\<lparr>EncryptionConfig.BlockSize := 1000\<rparr>\<rparr>)
        empty_world)
      = Returns (Inl BlockSizeError)
   \<and> reaches_block_check ok_collaborators () (dev_Config\<lparr>RS := dev_RS, Enc := dev_Enc\<rparr>)
   \<and> SysOpen ''/home/u/.enc.key''
        \<in> set (trace (snd (GetMetainfo ok_collaborators 32 no_faults ()
             (dev_Config\<lparr>RS := dev_RS, Enc := dev_Enc\<rparr>) empty_world)))"
proof -
  let ?bad = "dev_Config\<lparr>RS := dev_RS, Enc := dev_Enc\<lparr>EncryptionConfig.BlockSize := 1000\<rparr>\<rparr>"
  let ?good = "dev_Config\<lparr>RS := dev_RS, Enc := dev_Enc\<rparr>"
  have rb: "reaches_block_check ok_collaborators () ?bad" by (rule dev_reaches)
  have rg: "reaches_block_check ok_collaborators () ?good" by (rule dev_reaches)
  have "fst (GetMetainfo ok_collaborators 32 no_faults () ?bad empty_world)
      = Returns (Inl BlockSizeError)"
    using block_size_check [OF rb, of 32 no_faults empty_world]
    by (simp add: dev_RS_def dev_Enc_def)
  moreover have "SysOpen ''/home/u/.enc.key''
        \<in> set (trace (snd (GetMetainfo ok_collaborators 32 no_faults () ?good empty_world)))"
    using block_size_check [OF rg, of 32 no_faults empty_world]
    by (simp add: dev_RS_def dev_Enc_def)
  ultimately show ?thesis using rb rg by simp
qed

lemma config_error_dials:
  assumes "connects col identity c" and "thresholds_rejected c \<or> block_size_mismatch c"
  shows "NetDial (SatelliteAddr (Client c))
    \<in> set (drop (length (trace w)) (trace (snd (GetMetainfo col ksz flt identity c w))))"
proof -
  from config_error_after_connect [OF assms, of ksz flt w]
  obtain msg es where "GetMetainfo col ksz flt identity c w
     = (Returns (Inl (Class_New uplink_Error msg es)),
        log_event (NetDial (SatelliteAddr (Client c))) w)"
    by blast
  then show ?thesis by (simp add: log_event_def)
qed

lemma NewFEC_error_returned:
  assumes "connects col identity c"
    and "NewFEC (MinThreshold (RS c)) (MaxThreshold (RS c)) = Inl e"
  shows "fst (GetMetainfo col ksz flt identity c w)
    = Returns (Inl (Class_New uplink_Error ''failed to create erasure coding client: %v'' [e]))"
  using assms by (simp add: GetMetainfo_def connects_def Let_def)

lemma NewRedundancyStrategy_error_returned:
  assumes "connects col identity c"
    and "NewFEC (MinThreshold (RS c)) (MaxThreshold (RS c)) = Inr f"
    and "NewRedundancyStrategy (NewRSScheme f (Size_Int (ErasureShareSize (RS c))))
           (RepairThreshold (RS c)) (SuccessThreshold (RS c)) = Inl e"
  shows "fst (GetMetainfo col ksz flt identity c w)
    = Returns (Inl (Class_New uplink_Error ''failed to create redundancy strategy: %v'' [e]))"
  using assms by (simp add: GetMetainfo_def connects_def Let_def)

text \<open>
  C3, as stated, at the development configuration with the block size 1000, which does
  not divide 1024 * 4, and with the minimum threshold 0: GetMetainfo returns the
  configuration error, and by then it has attempted the connection to the metainfo
  service.
\<close>

theorem configuration_error_after_connection:
  "fst (GetMetainfo ok_collaborators 32 no_faults ()
       (dev_Config\<lparr>RS := dev_RS, Enc := dev_Enc\<lparr>EncryptionConfig.BlockSize := 1000\<rparr>\<rparr>)
       empty_world)
     = Returns (Inl BlockSizeError)
   \<and> trace (snd (GetMetainfo ok_collaborators 32 no_faults ()
       (dev_Config\<lparr>RS := dev_RS, Enc := dev_Enc\<lparr>EncryptionConfig.BlockSize := 1000\<rparr>\<rparr>)
       empty_world))
     = [NetDial ''127.0.0.1:10000'']
   \<and> fst (GetMetainfo ok_collaborators 32 no_faults ()
       (dev_Config\<lparr>RS := dev_RS\<lparr>MinThreshold := 0\<rparr>, Enc := dev_Enc\<rparr>) empty_world)
     = Returns (Inl (Class_New uplink_Error ''failed to create erasure coding client: %v''
                       [External ''invalid required and total share counts'']))
   \<and> trace (snd (GetMetainfo ok_collaborators 32 no_faults ()
       (dev_Config\<lparr>RS := dev_RS\<lparr>MinThreshold := 0\<rparr>, Enc := dev_Enc\<rparr>) empty_world))
     = [NetDial ''127.0.0.1:10000'']"
  by (simp add: GetMetainfo_def ok_collaborators_def NewFEC_def NewRedundancyStrategy_def
      NewRSScheme_def Let_def dev_Config_def dev_RS_def dev_Enc_def dev_Client_def
      Size_Int_def go_rem_def signed_modulo_int_def log_event_def empty_world_def
      BlockSizeError_def)

text \<open>
  C3, amended: a configuration error is fatal, and it is reported after the connection to
  the metainfo service has been attempted, not before. Whenever the steps of GetMetainfo
  up to and including that connection succeed: if NewFEC rejects the thresholds,
  GetMetainfo returns "failed to create erasure coding client" with the error of NewFEC;
  if NewFEC accepts them and NewRedundancyStrategy rejects them, GetMetainfo returns
  "failed to create redundancy strategy" with the error of NewRedundancyStrategy; if
  every step before the check of the block size succeeds and the product of share size
  and minimum threshold is not a multiple of the block size, GetMetainfo returns
  "EncryptionBlockSize must be a multiple of ErasureShareSize * RS MinThreshold". If the
  thresholds are rejected or the product is not a multiple of the block size, GetMetainfo
  returns an error of the class "Uplink configuration error" and no stores, and the
  connection attempt is among the events that this call of GetMetainfo has added to the
  trace.
\<close>

theorem configuration_errors_follow_connection:
  assumes "connects col identity c"
  shows "(NewFEC (MinThreshold (RS c)) (MaxThreshold (RS c)) = Inl e \<longrightarrow>
        fst (GetMetainfo col ksz flt identity c w)
          = Returns (Inl (Class_New uplink_Error
              ''failed to create erasure coding client: %v'' [e])))
    \<and> (NewFEC (MinThreshold (RS c)) (MaxThreshold (RS c)) = Inr f
        \<and> NewRedundancyStrategy (NewRSScheme f (Size_Int (ErasureShareSize (RS c))))
            (RepairThreshold (RS c)) (SuccessThreshold (RS c)) = Inl e \<longrightarrow>
        fst (GetMetainfo col ksz flt identity c w)
          = Returns (Inl (Class_New uplink_Error
              ''failed to create redundancy strategy: %v'' [e])))
    \<and> (reaches_block_check col identity c \<and> block_size_mismatch c \<longrightarrow>
        fst (GetMetainfo col ksz flt identity c w) = Returns (Inl BlockSizeError))
    \<and> (thresholds_rejected c \<or> block_size_mismatch c \<longrightarrow>
        (\<exists>msg es. fst (GetMetainfo col ksz flt identity c w)
            = Returns (Inl (Class_New uplink_Error msg es)))
        \<and> NetDial (SatelliteAddr (Client c))
            \<in> set (drop (length (trace w))
                 (trace (snd (GetMetainfo col ksz flt identity c w)))))"
proof -
  have 1: "NewFEC (MinThreshold (RS c)) (MaxThreshold (RS c)) = Inl e \<longrightarrow>
        fst (GetMetainfo col ksz flt identity c w)
          = Returns (Inl (Class_New uplink_Error
              ''failed to create erasure coding client: %v'' [e]))"
    using NewFEC_error_returned [OF assms, of e ksz flt w] by blast
  have 2: "NewFEC (MinThreshold (RS c)) (MaxThreshold (RS c)) = Inr f
        \<and> NewRedundancyStrategy (NewRSScheme f (Size_Int (ErasureShareSize (RS c))))
            (RepairThreshold (RS c)) (SuccessThreshold (RS c)) = Inl e \<longrightarrow>
        fst (GetMetainfo col ksz flt identity c w)
          = Returns (Inl (Class_New uplink_Error
              ''failed to create redundancy strategy: %v'' [e]))"
    using NewRedundancyStrategy_error_returned [OF assms, of f e ksz flt w] by blast
  have 3: "reaches_block_check col identity c \<and> block_size_mismatch c \<longrightarrow>
        fst (GetMetainfo col ksz flt identity c w) = Returns (Inl BlockSizeError)"
    using block_check_iff [of col identity c ksz flt w] by blast
  have 4: "thresholds_rejected c \<or> block_size_mismatch c \<longrightarrow>
        (\<exists>msg es. fst (GetMetainfo col ksz flt identity c w)
            = Returns (Inl (Class_New uplink_Error msg es)))
        \<and> NetDial (SatelliteAddr (Client c))
            \<in> set (drop (length (trace w))
                 (trace (snd (GetMetainfo col ksz flt identity c w))))"
  proof
    assume h: "thresholds_rejected c \<or> block_size_mismatch c"
    from config_error_after_connect [OF assms h, of ksz flt w]
    have "\<exists>msg es. fst (GetMetainfo col ksz flt identity c w)
            = Returns (Inl (Class_New uplink_Error msg es))"
      by auto
    with config_error_dials [OF assms h, of w ksz flt]
    show "(\<exists>msg es. fst (GetMetainfo col ksz flt identity c w)
            = Returns (Inl (Class_New uplink_Error msg es)))
        \<and> NetDial (SatelliteAddr (Client c))
            \<in> set (drop (length (trace w))
                 (trace (snd (GetMetainfo col ksz flt identity c w))))"
      by blast
  qed
  from 1 2 3 4 show ?thesis by blast
qed

theorem configuration_errors_follow_connection_witness:
  "connects ok_collaborators ()
     (dev_Config\<lparr>RS := dev_RS\<lparr>MinThreshold := 0\<rparr>, Enc := dev_Enc\<rparr>)
   \<and> fst (GetMetainfo ok_collaborators 32 no_faults ()
            (dev_Config\<lparr>RS := dev_RS\<lparr>MinThreshold := 0\<rparr>, Enc := dev_Enc\<rparr>) empty_world)
      = Returns (Inl (Class_New uplink_Error ''failed to create erasure coding client: %v''
                        [External ''invalid required and total share counts'']))
   \<and> NetDial ''127.0.0.1:10000''
      \<in> set (drop 0 (trace (snd (GetMetainfo ok_collaborators 32 no_faults ()
               (dev_Config\<lparr>RS := dev_RS\<lparr>MinThreshold := 0\<rparr>, Enc := dev_Enc\<rparr>) empty_world))))
   \<and> connects ok_collaborators ()
       (dev_Config\<lparr>RS := dev_RS\<lparr>RepairThreshold := 2\<rparr>, Enc := dev_Enc\<rparr>)
   \<and> fst (GetMetainfo ok_collaborators 32 no_faults ()
            (dev_Config\<lparr>RS := dev_RS\<lparr>RepairThreshold := 2\<rparr>, Enc := dev_Enc\<rparr>) empty_world)
      = Returns (Inl (Class_New uplink_Error ''failed to create redundancy strategy: %v''
                        [External ''invalid repair and optimal thresholds'']))
   \<and> connects ok_collaborators ()
       (dev_Config\<lparr>RS := dev_RS, Enc := dev_Enc\<lparr>EncryptionConfig.BlockSize := 1000\<rparr>\<rparr>)
   \<and> fst (GetMetainfo ok_collaborators 32 no_faults ()
            (dev_Config\<lparr>RS := dev_RS, Enc := dev_Enc\<lparr>EncryptionConfig.BlockSize := 1000\<rparr>\<rparr>)
            empty_world)
      = Returns (Inl BlockSizeError)"
proof -
  let ?c = "dev_Config\<lparr>RS := dev_RS\<lparr>MinThreshold := 0\<rparr>, Enc := dev_Enc\<rparr>"
  let ?d = "dev_Config\<lparr>RS := dev_RS\<lparr>RepairThreshold := 2\<rparr>, Enc := dev_Enc\<rparr>"
  let ?b = "dev_Config\<lparr>RS := dev_RS, Enc := dev_Enc\<lparr>EncryptionConfig.BlockSize := 1000\<rparr>\<rparr>"
  let ?e1 = "External ''invalid required and total share counts''"
  let ?e2 = "External ''invalid repair and optimal thresholds''"
  let ?f = "\<lparr>fec_k = 4, fec_n = 10\<rparr>"
  have a: "connects ok_collaborators () ?c" by (rule dev_connects)
  have a': "connects ok_collaborators () ?d" by (rule dev_connects)
  have a'': "connects ok_collaborators () ?b" by (rule dev_connects)
  have n: "NewFEC (MinThreshold (RS ?c)) (MaxThreshold (RS ?c)) = Inl ?e1"
    by (simp add: NewFEC_def)
  then have r: "thresholds_rejected ?c"
    by (simp add: thresholds_rejected_def)
  have t: "length (trace empty_world) = 0" by (simp add: empty_world_def)
  have s: "SatelliteAddr (Client ?c) = ''127.0.0.1:10000''"
    by (simp add: dev_Config_def dev_Client_def)
  have m: "NewFEC (MinThreshold (RS ?d)) (MaxThreshold (RS ?d)) = Inr ?f
      \<and> NewRedundancyStrategy (NewRSScheme ?f (Size_Int (ErasureShareSize (RS ?d))))
            (RepairThreshold (RS ?d)) (SuccessThreshold (RS ?d)) = Inl ?e2"
    by (simp add: NewFEC_def NewRedundancyStrategy_def NewRSScheme_def dev_RS_def)
  have rb: "reaches_block_check ok_collaborators () ?b" by (rule dev_reaches)
  have mm: "block_size_mismatch ?b"
    by (simp add: block_size_mismatch_def dev_RS_def dev_Enc_def)
  from configuration_errors_follow_connection
    [OF a, of ?e1 32 no_faults empty_world ?f] n r
  have 1: "fst (GetMetainfo ok_collaborators 32 no_faults () ?c empty_world)
      = Returns (Inl (Class_New uplink_Error ''failed to create erasure coding client: %v''
                        [?e1]))
    \<and> NetDial ''127.0.0.1:10000''
      \<in> set (drop 0 (trace (snd (GetMetainfo ok_collaborators 32 no_faults () ?c empty_world))))"
    by (simp only: t s) blast
  from configuration_errors_follow_connection
    [OF a', of ?e2 32 no_faults empty_world ?f] m
  have 2: "fst (GetMetainfo ok_collaborators 32 no_faults () ?d empty_world)
      = Returns (Inl (Class_New uplink_Error ''failed to create redundancy strategy: %v''
                        [?e2]))"
    by blast
  from configuration_errors_follow_connection
    [OF a'', of ?e1 32 no_faults empty_world ?f] rb mm
  have 3: "fst (GetMetainfo ok_collaborators 32 no_faults () ?b empty_world)
      = Returns (Inl BlockSizeError)"
    by blast
  from a a' a'' 1 2 3 show ?thesis by (simp only: simp_thms)
qed



section \<open>Properties of the erasure coding\<close>

lemma poly_eval_add: "poly_eval (poly_add p q) x = poly_eval p x + poly_eval q x"
  by (induction p q rule: poly_add.induct) (simp_all add: algebra_simps)

lemma length_poly_add: "length (poly_add p q) = max (length p) (length q)"
  by (induction p q rule: poly_add.induct) simp_all

lemma poly_eval_scale: "poly_eval (poly_scale c p) x = c * poly_eval p x"
  by (induction p) (simp_all add: poly_scale_def algebra_simps)

lemma length_poly_scale: "length (poly_scale c p) = length p"
  by (simp add: poly_scale_def)

lemma poly_eval_times_linear: "poly_eval (times_linear a p) x = (x - a) * poly_eval p x"
  by (simp add: times_linear_def poly_eval_add poly_eval_scale algebra_simps)

lemma length_times_linear: "length (times_linear a p) = Suc (length p)"
  by (simp add: times_linear_def length_poly_add length_poly_scale)

lemma length_vanishing: "length (vanishing as) = Suc (length as)"
  by (induction as) (simp_all add: length_times_linear)

lemma poly_eval_vanishing: "poly_eval (vanishing as) x = (\<Prod>a\<leftarrow>as. x - a)"
  by (induction as) (simp_all add: poly_eval_times_linear)

lemma vanishing_root: "x \<in> set as \<Longrightarrow> poly_eval (vanishing as) x = 0"
  by (induction as) (auto simp add: poly_eval_times_linear)

lemma vanishing_nonzero: "x \<notin> set as \<Longrightarrow> poly_eval (vanishing as) x \<noteq> 0"
  by (induction as) (auto simp add: poly_eval_times_linear)

lemma length_interpolate: "length (interpolate ps) = length ps"
  by (induction ps rule: interpolate.induct) (simp_all add: Let_def length_poly_add length_poly_scale length_vanishing)

lemma poly_eval_interpolate:
  assumes "distinct (map fst ps)" and "(x, y) \<in> set ps"
  shows "poly_eval (interpolate ps) x = y"
  using assms
proof (induction ps rule: interpolate.induct)
  case 1
  then show ?case by simp
next
  case (2 x' y' ps)
  show ?case
  proof (cases "(x, y) \<in> set ps")
    case True
    with 2 have "poly_eval (interpolate ps) x = y" by simp
    moreover from True have "x \<in> set (map fst ps)" by force
    ultimately show ?thesis
      by (simp add: Let_def poly_eval_add poly_eval_scale vanishing_root)
  next
    case False
    with 2 have [simp]: "x = x'" "y = y'" by auto
    from 2 have "x' \<notin> set (map fst ps)" by simp
    then have "poly_eval (vanishing (map fst ps)) x' \<noteq> 0" by (rule vanishing_nonzero)
    then show ?thesis
      by (simp add: Let_def poly_eval_add poly_eval_scale)
  qed
qed


text \<open>The quotient of a polynomial by \<open>X - a\<close>, used to count roots.\<close>

fun poly_quot :: "'a::field \<Rightarrow> 'a list \<Rightarrow> 'a list" where
  "poly_quot a [] = []"
| "poly_quot a [c] = []"
| "poly_quot a (c # d # ds) = poly_eval (d # ds) a # poly_quot a (d # ds)"

lemma length_poly_quot: "length (poly_quot a p) = length p - 1"
  by (induction a p rule: poly_quot.induct) simp_all

lemma poly_eval_quot: "poly_eval p x = (x - a) * poly_eval (poly_quot a p) x + poly_eval p a"
proof (induction a p rule: poly_quot.induct)
  case (3 a c d ds)
  define P where "P = poly_eval (d # ds) x"
  define E where "E = poly_eval (d # ds) a"
  define Q where "Q = poly_eval (poly_quot a (d # ds)) x"
  from 3 have P: "P = (x - a) * Q + E"
    by (simp only: P_def E_def Q_def)
  have "c + x * P = (x - a) * (E + x * Q) + (c + a * E)"
    unfolding P by (simp add: algebra_simps)
  then show ?case
    by (simp only: P_def E_def Q_def poly_quot.simps poly_eval.simps)
qed simp_all

lemma poly_quot_zero:
  assumes "\<forall>c\<in>set (poly_quot a p). c = 0" and "poly_eval p a = 0"
  shows "\<forall>c\<in>set p. c = 0"
  using assms
proof (induction a p rule: poly_quot.induct)
  case (3 a c d ds)
  then have z: "\<forall>c\<in>set (d # ds). c = 0" by simp
  have "poly_eval cs a = 0" if "\<forall>c\<in>set cs. c = 0" for cs :: "'a list"
    using that by (induction cs) simp_all
  from this [OF z] 3(3) have "c = 0" by simp
  with z show ?case by simp
qed simp_all

lemma roots_zero:
  assumes "length p = length xs" and "distinct xs" and "\<forall>x\<in>set xs. poly_eval p x = 0"
  shows "\<forall>c\<in>set p. c = 0"
  using assms
proof (induction xs arbitrary: p)
  case Nil
  then show ?case by simp
next
  case (Cons a as)
  have "poly_eval (poly_quot a p) x = 0" if "x \<in> set as" for x
  proof -
    from that Cons.prems have "poly_eval p x = 0" "poly_eval p a = 0" "x \<noteq> a" by auto
    with poly_eval_quot [of p x a] show ?thesis by simp
  qed
  moreover from Cons.prems have "length (poly_quot a p) = length as" "distinct as"
    by (simp_all add: length_poly_quot)
  ultimately have "\<forall>c\<in>set (poly_quot a p). c = 0"
    using Cons.IH by blast
  moreover from Cons.prems have "poly_eval p a = 0" by simp
  ultimately show ?case by (rule poly_quot_zero)
qed

lemma poly_eval_diff:
  assumes "length p = length q"
  shows "poly_eval (map2 (-) p q) x = poly_eval p x - poly_eval q x"
  using assms by (induction p q rule: list_induct2) (simp_all add: right_diff_distrib)

lemma interpolation_unique:
  assumes "length p = length xs" and "length q = length xs" and "distinct xs"
    and "\<forall>x\<in>set xs. poly_eval p x = poly_eval q x"
  shows "p = q"
proof -
  have len: "length p = length q" using assms by simp
  have "\<forall>c\<in>set (map2 (-) p q). c = 0"
  proof (rule roots_zero)
    show "length (map2 (-) p q) = length xs" using assms by simp
    show "distinct xs" by fact
    show "\<forall>x\<in>set xs. poly_eval (map2 (-) p q) x = 0"
      using assms(4) by (simp add: poly_eval_diff [OF len])
  qed
  then have "\<forall>i<length p. p ! i - q ! i = 0"
    using len by (auto simp add: set_conv_nth)
  then show ?thesis
    using len by (auto intro: nth_equalityI)
qed

lemma interpolate_recovers:
  assumes "length msg = length xs" and "distinct xs"
  shows "interpolate (zip xs (map (poly_eval msg) xs)) = msg"
proof (rule interpolation_unique [where xs = xs])
  let ?ps = "zip xs (map (poly_eval msg) xs)"
  show "length (interpolate ?ps) = length xs" by (simp add: length_interpolate)
  show "length msg = length xs" by fact
  show "distinct xs" by fact
  have fst: "map fst ?ps = xs" by simp
  show "\<forall>x\<in>set xs. poly_eval (interpolate ?ps) x = poly_eval msg x"
  proof
    fix x assume "x \<in> set xs"
    then have "(x, poly_eval msg x) \<in> set ?ps"
      by (auto simp add: set_zip in_set_conv_nth)
    then show "poly_eval (interpolate ?ps) x = poly_eval msg x"
      using assms(2) by (intro poly_eval_interpolate) (simp_all only: fst)
  qed
qed


lemma length_pad:
  assumes "0 < m"
  shows "length (pad m P) mod m = 0"
proof -
  let ?r = "length P mod m"
  have "(length P + (m - ?r) mod m) mod m = (?r + (m - ?r) mod m) mod m"
    by (simp add: mod_add_left_eq)
  also have "\<dots> = 0"
  proof (cases "?r = 0")
    case True
    then show ?thesis by simp
  next
    case False
    with assms have "?r < m" "0 < ?r" by simp_all
    then have "(m - ?r) mod m = m - ?r" by simp
    with \<open>?r < m\<close> show ?thesis by simp
  qed
  finally show ?thesis by (simp add: pad_def)
qed

lemma take_pad: "take (length P) (pad m P) = P"
  by (simp add: pad_def)

lemma concat_chunks_take:
  "concat (map (\<lambda>j. take k (drop (j * k) xs)) [0..<m]) = take (m * k) xs"
proof (induction m)
  case 0
  then show ?case by simp
next
  case (Suc m)
  have "take (m * k + k) xs = take (m * k) xs @ take k (drop (m * k) xs)"
    by (rule take_add)
  with Suc show ?case by (simp add: add.commute)
qed

lemma concat_chunks:
  assumes "length xs mod k = 0"
  shows "concat (chunks k xs) = xs"
proof -
  from assms have "length xs div k * k = length xs"
    by (metis div_mult_mod_eq add.right_neutral)
  then show ?thesis
    by (simp add: chunks_def concat_chunks_take)
qed

lemma length_chunk:
  assumes "msg \<in> set (chunks k xs)"
  shows "length msg = k"
proof -
  from assms obtain j where j: "j < length xs div k" and msg: "msg = take k (drop (j * k) xs)"
    by (auto simp add: chunks_def)
  from j have "Suc j * k \<le> length xs div k * k"
    by (intro mult_le_mono1) simp
  also have "\<dots> \<le> length xs"
    by (metis div_mult_mod_eq le_add1)
  finally have "j * k + k \<le> length xs" by simp
  then show ?thesis by (simp add: msg)
qed



lemma Decode_Inr:
  assumes "filter (\<lambda>s. fst s < TotalCount rs) shares = shares"
    and "RequiredCount rs \<le> length shares"
    and "distinct (map fst (take (RequiredCount rs) shares))"
    and "take (RequiredCount rs) shares \<noteq> []"
    and "\<forall>t\<in>set (take (RequiredCount rs) shares). length (snd t) = m"
  shows "Decode rs pt len shares
    = Inr (take len (concat
        (map (\<lambda>j. interpolate (map (\<lambda>t. (pt (fst t), snd t ! j)) (take (RequiredCount rs) shares)))
           [0..<m])))"
proof (cases "take (RequiredCount rs) shares")
  case Nil
  with assms(4) show ?thesis by simp
next
  case (Cons s rest)
  with assms(5) have "length (snd s) = m" "\<forall>t\<in>set rest. length (snd t) = m"
    by simp_all
  with assms(1,2,3) Cons show ?thesis
    by (simp add: Decode_def Let_def)
qed

lemma Decode_Encode:
  fixes pt :: "nat \<Rightarrow> 'a::field"
  assumes k: "0 < RequiredCount rs" and ess: "0 < ShareSize rs"
    and pt: "inj_on pt {..<TotalCount rs}"
    and idxs: "distinct idxs" "set idxs \<subseteq> {..<TotalCount rs}" "RequiredCount rs \<le> length idxs"
  shows "Decode rs pt (length P) (map (\<lambda>i. (i, Encode rs pt P ! i)) idxs) = Inr P"
proof -
  define k where "k = RequiredCount rs"
  define n where "n = TotalCount rs"
  define msgs where "msgs = chunks k (pad (k * ShareSize rs) P)"
  define shares where "shares = map (\<lambda>i. (i, Encode rs pt P ! i)) idxs"
  define used where "used = take k shares"
  define js where "js = take k idxs"
  have enc: "Encode rs pt P ! i = map (\<lambda>msg. poly_eval msg (pt i)) msgs" if "i < n" for i
    using that by (simp add: Encode_def msgs_def k_def n_def)
  have valid: "filter (\<lambda>s. fst s < n) shares = shares"
    using idxs(2) by (auto simp add: shares_def filter_id_conv n_def)
  have js: "distinct js" "set js \<subseteq> {..<n}" "length js = k"
    using idxs by (auto simp add: js_def k_def n_def dest: in_set_takeD)
  have used: "used = map (\<lambda>i. (i, map (\<lambda>msg. poly_eval msg (pt i)) msgs)) js"
  proof -
    have "used = map (\<lambda>i. (i, Encode rs pt P ! i)) js"
      by (simp add: used_def shares_def js_def take_map)
    also have "\<dots> = map (\<lambda>i. (i, map (\<lambda>msg. poly_eval msg (pt i)) msgs)) js"
      using js(2) by (intro map_cong) (auto simp add: enc)
    finally show ?thesis .
  qed
  from js(3) k obtain i0 rest where js_cons: "js = i0 # rest"
    by (cases js) (auto simp add: k_def)
  have xs: "distinct (map pt js)"
    using js(1,2) pt by (simp add: distinct_map inj_on_subset n_def)
  have msg_len: "length (msgs ! j) = k" if "j < length msgs" for j
    using that by (intro length_chunk [of _ k "pad (k * ShareSize rs) P"]) (simp add: msgs_def)
  have rec: "interpolate (map (\<lambda>t. (pt (fst t), snd t ! j)) used) = msgs ! j"
    if "j < length msgs" for j
  proof -
    have "map (\<lambda>t. (pt (fst t), snd t ! j)) used
        = zip (map pt js) (map (poly_eval (msgs ! j)) (map pt js))"
      using that by (simp add: used zip_map_map zip_same_conv_map o_def)
    moreover have "length (msgs ! j) = length (map pt js)"
      using msg_len [OF that] js(3) by simp
    ultimately show ?thesis
      using interpolate_recovers [OF _ xs, of "msgs ! j"] by simp
  qed
  have all: "map (\<lambda>j. interpolate (map (\<lambda>t. (pt (fst t), snd t ! j)) used)) [0..<length msgs]
      = msgs"
    by (rule nth_equalityI) (simp_all add: rec)
  have cat: "concat msgs = pad (k * ShareSize rs) P"
  proof -
    from k ess have "0 < k * ShareSize rs" by (simp add: k_def)
    from length_pad [OF this] have "k * ShareSize rs dvd length (pad (k * ShareSize rs) P)"
      by (simp add: mod_eq_0_iff_dvd)
    then have "k dvd length (pad (k * ShareSize rs) P)"
      by (rule dvd_mult_left)
    then have "length (pad (k * ShareSize rs) P) mod k = 0"
      by (simp add: mod_eq_0_iff_dvd)
    then show ?thesis by (simp add: msgs_def concat_chunks)
  qed
  have "Decode rs pt (length P) shares
      = Inr (take (length P) (concat
          (map (\<lambda>j. interpolate (map (\<lambda>t. (pt (fst t), snd t ! j)) (take (RequiredCount rs) shares)))
             [0..<length msgs])))"
  proof (rule Decode_Inr)
    show "filter (\<lambda>s. fst s < TotalCount rs) shares = shares"
      using valid by (simp add: n_def)
    show "RequiredCount rs \<le> length shares" using idxs(3) by (simp add: shares_def)
    show "distinct (map fst (take (RequiredCount rs) shares))"
      using js(1) by (simp add: k_def [symmetric] used_def [symmetric] used o_def)
    show "take (RequiredCount rs) shares \<noteq> []"
      by (simp add: k_def [symmetric] used_def [symmetric] used js_cons)
    show "\<forall>t\<in>set (take (RequiredCount rs) shares). length (snd t) = length msgs"
      by (auto simp add: k_def [symmetric] used_def [symmetric] used)
  qed
  then have "Decode rs pt (length P) shares = Inr (take (length P) (concat msgs))"
    by (simp only: k_def [symmetric] used_def [symmetric] all)
  then show ?thesis
    by (simp add: cat take_pad shares_def)
qed

lemma construction_succeeds:
  assumes "thresholds_ordered r" and "0 < sint (ErasureShareSize r)"
  shows "NewFEC (MinThreshold r) (MaxThreshold r)
           = Inr \<lparr>fec_k = MinThreshold r, fec_n = MaxThreshold r\<rparr>"
    and "NewRedundancyStrategy
           (NewRSScheme \<lparr>fec_k = MinThreshold r, fec_n = MaxThreshold r\<rparr>
              (Size_Int (ErasureShareSize r)))
           (RepairThreshold r) (SuccessThreshold r)
         = Inr \<lparr>ErasureScheme = NewRSScheme \<lparr>fec_k = MinThreshold r, fec_n = MaxThreshold r\<rparr>
                    (Size_Int (ErasureShareSize r)),
                repairThreshold = RepairThreshold r, optimalThreshold = SuccessThreshold r\<rparr>"
  using assms
  by (simp_all add: thresholds_ordered_def NewFEC_def NewRedundancyStrategy_def NewRSScheme_def
      Size_Int_def)

lemma Encode_shares:
  shows "length (Encode rs pt P) = TotalCount rs"
    and "s \<in> set (Encode rs pt P) \<Longrightarrow>
      length s = length (pad (RequiredCount rs * ShareSize rs) P) div RequiredCount rs"
  by (auto simp add: Encode_def chunks_def)

lemma Decode_too_few:
  assumes "length (filter (\<lambda>s. fst s < TotalCount rs) shares) < RequiredCount rs"
  shows "Decode rs pt len shares = Inl NotEnoughShares"
  using assms by (simp add: Decode_def)

text \<open>
  The plaintext 1, 2, 3 over the rationals, with the piece numbers as points: the
  messages are 1 + 2 X and 3, the four shares are their values at 0, 1, 2, 3, and the
  shares of the pieces 3 and 1 give the plaintext back.
\<close>

lemma small_rs_counts:
  "RequiredCount small_rs = 2" "TotalCount small_rs = 4" "ShareSize small_rs = 1"
  by (simp_all add: small_rs_def RequiredCount_def TotalCount_def ShareSize_def NewRSScheme_def)

lemma Encode_example:
  "Encode small_rs (of_nat :: nat \<Rightarrow> rat) [1, 2, 3] = [[1, 3], [3, 3], [5, 3], [7, 3]]"
  by (simp add: Encode_def small_rs_counts pad_def chunks_def upt_rec)

lemma Decode_example:
  "Decode small_rs (of_nat :: nat \<Rightarrow> rat) 3 [(3, [7, 3]), (1, [3, 3])] = Inr [1, 2, 3]"
  by (simp add: Decode_def small_rs_counts Let_def poly_scale_def times_linear_def upt_rec)

lemma Decode_error_examples:
  "Decode small_rs (of_nat :: nat \<Rightarrow> rat) 3 [(3, [7, 3])] = Inl NotEnoughShares"
  "Decode small_rs (of_nat :: nat \<Rightarrow> rat) 3 [(3, [7, 3]), (1, [3])] = Inl MismatchedStripeSize"
  "Decode small_rs (of_nat :: nat \<Rightarrow> rat) 3 [(3, [7, 3]), (3, [7, 3])] = Inl DuplicateShares"
  by (simp_all add: Decode_def small_rs_counts)

text \<open>
  C1: for every redundancy configuration with \<open>0 < k \<le> m \<le> o \<le> n\<close> and a positive
  erasure share size, the construction of lines 131 to 139 of GetMetainfo succeeds, and
  with the strategy it yields, for every plaintext P and every choice of at least k
  distinct piece numbers below n (in any order), decoding the shares of Encode(P) with
  those piece numbers returns exactly P. Up to n - k shares may be lost. The points at
  which the n pieces evaluate are distinct.
\<close>

theorem erasure_round_trip:
  fixes pt :: "nat \<Rightarrow> 'a::field"
  assumes "thresholds_ordered r" and "0 < sint (ErasureShareSize r)"
    and "inj_on pt {..<nat (sint (MaxThreshold r))}"
  shows "\<exists>f rs. NewFEC (MinThreshold r) (MaxThreshold r) = Inr f
      \<and> NewRedundancyStrategy (NewRSScheme f (Size_Int (ErasureShareSize r)))
            (RepairThreshold r) (SuccessThreshold r) = Inr rs
      \<and> (\<forall>P idxs. distinct idxs \<and> set idxs \<subseteq> {..<nat (sint (MaxThreshold r))}
             \<and> nat (sint (MinThreshold r)) \<le> length idxs
           \<longrightarrow> Decode rs pt (length P) (map (\<lambda>i. (i, Encode rs pt P ! i)) idxs) = Inr P)"
proof -
  let ?f = "\<lparr>fec_k = MinThreshold r, fec_n = MaxThreshold r\<rparr>"
  let ?rs = "\<lparr>ErasureScheme = NewRSScheme ?f (Size_Int (ErasureShareSize r)),
      repairThreshold = RepairThreshold r, optimalThreshold = SuccessThreshold r\<rparr>"
  have k: "RequiredCount ?rs = nat (sint (MinThreshold r))"
    and n: "TotalCount ?rs = nat (sint (MaxThreshold r))"
    and e: "ShareSize ?rs = nat (sint (ErasureShareSize r))"
    by (simp_all add: RequiredCount_def TotalCount_def ShareSize_def NewRSScheme_def Size_Int_def)
  have pos: "0 < RequiredCount ?rs" "0 < ShareSize ?rs"
    using assms(1,2) by (simp_all add: k e thresholds_ordered_def)
  have "Decode ?rs pt (length P) (map (\<lambda>i. (i, Encode ?rs pt P ! i)) idxs) = Inr P"
    if "distinct idxs" "set idxs \<subseteq> {..<nat (sint (MaxThreshold r))}"
      "nat (sint (MinThreshold r)) \<le> length idxs" for P idxs
    using that assms(3) by (intro Decode_Encode pos) (simp_all add: k n)
  with construction_succeeds [OF assms(1,2)] show ?thesis by blast
qed

theorem erasure_round_trip_witness:
  "thresholds_ordered dev_RS \<and> 0 < sint (ErasureShareSize dev_RS)
   \<and> inj_on (of_nat :: nat \<Rightarrow> rat) {..<nat (sint (MaxThreshold dev_RS))}
   \<and> (\<exists>f rs. NewFEC (MinThreshold dev_RS) (MaxThreshold dev_RS) = Inr f
      \<and> NewRedundancyStrategy (NewRSScheme f (Size_Int (ErasureShareSize dev_RS)))
            (RepairThreshold dev_RS) (SuccessThreshold dev_RS) = Inr rs
      \<and> Decode rs (of_nat :: nat \<Rightarrow> rat) (length [1, 2, 3, 4, 5 :: rat])
           (map (\<lambda>i. (i, Encode rs of_nat [1, 2, 3, 4, 5] ! i)) [9, 2, 7, 0])
         = Inr [1, 2, 3, 4, 5])"
proof -
  have a: "thresholds_ordered dev_RS"
    by (rule dev_thresholds)
  have b: "0 < sint (ErasureShareSize dev_RS)"
    by (simp add: dev_RS_def)
  have c: "inj_on (of_nat :: nat \<Rightarrow> rat) {..<nat (sint (MaxThreshold dev_RS))}"
    by (simp add: inj_on_def)
  have d: "distinct [9, 2, 7, 0 :: nat] \<and> set [9, 2, 7, 0 :: nat] \<subseteq> {..<nat (sint (MaxThreshold dev_RS))}
      \<and> nat (sint (MinThreshold dev_RS)) \<le> length [9, 2, 7, 0 :: nat]"
    by (simp add: dev_RS_def)
  from erasure_round_trip [OF a b c] d a b c show ?thesis by blast
qed

end
